theory Spec2Isabelle
  imports Main "HOL-Library.Word"
begin

section \<open>JavaScript values used by the wrapper\<close>

text \<open>
  A JavaScript string is a sequence of UTF-16 code units. The regular expression of
  \<open>dataUrlToParts\<close> has no \<open>u\<close> flag and \<open>String.prototype.trim\<close> strips code
  units above 255, so the code unit is the right grain: a string is a list of 16-bit words.
  ASCII literals of the source are written through \<open>ascii\<close>; the accented letters of
  the Portuguese messages are given by their code unit.
\<close>

type_synonym jsstring = "16 word list"

definition ascii :: "string \<Rightarrow> jsstring" where
  "ascii s = map of_char s"

text \<open>
  An optional string property (\<open>string | undefined\<close>) is a \<open>jsstring option\<close>.
  \<open>truthy\<close> is the test JavaScript makes in \<open>if (v)\<close>, \<open>v || ...\<close> and
  \<open>v ? ... : ...\<close>: \<open>undefined\<close> and the empty string are falsy.
  \<open>template\<close> is what \<open>${v}\<close> puts into a template literal.
\<close>

definition truthy :: "jsstring option \<Rightarrow> bool" where
  "truthy v = (case v of None \<Rightarrow> False | Some s \<Rightarrow> s \<noteq> [])"

definition template :: "jsstring option \<Rightarrow> jsstring" where
  "template v = (case v of None \<Rightarrow> ascii ''undefined'' | Some s \<Rightarrow> s)"

text \<open>
  \<open>String.prototype.trim\<close> removes the white space and line terminator code units
  (ECMAScript \<open>WhiteSpace\<close> and \<open>LineTerminator\<close>) from both ends.
\<close>

definition whiteSpace :: "16 word \<Rightarrow> bool" where
  "whiteSpace c =
     (c = 0x09 \<or> c = 0x0A \<or> c = 0x0B \<or> c = 0x0C \<or> c = 0x0D \<or> c = 0x20 \<or> c = 0xA0 \<or>
      c = 0x1680 \<or> (0x2000 \<le> c \<and> c \<le> 0x200A) \<or> c = 0x2028 \<or> c = 0x2029 \<or>
      c = 0x202F \<or> c = 0x205F \<or> c = 0x3000 \<or> c = 0xFEFF)"

definition trim :: "jsstring \<Rightarrow> jsstring" where
  "trim s = rev (dropWhile whiteSpace (rev (dropWhile whiteSpace s)))"

text \<open>
  Every failure of the wrapper's own code is \<open>throw new Error(message)\<close>. A rejection
  that comes from outside the module (the error event of the \<open>FileReader\<close>, a failure
  of the service call) is \<open>External\<close>, with an identifier the wrapper never reads.
\<close>

datatype error = Error jsstring | External nat

section \<open>The service's response and request types\<close>

text \<open>
  The part of \<open>GenerateContentResponse\<close> of the \<open>@google/genai\<close> library that
  \<open>handleApiResponse\<close> reads. Every property is optional in the library's
  declarations. \<open>response_text\<close> is the value of the library's \<open>text\<close> accessor.
\<close>

record Blob =
  mimeType :: "jsstring option"
  data :: "jsstring option"

record Part =
  inlineData :: "Blob option"
  part_text :: "jsstring option"

record Content =
  parts :: "Part list option"

record Candidate =
  content :: "Content option"
  finishReason :: "jsstring option"

record PromptFeedback =
  blockReason :: "jsstring option"
  blockReasonMessage :: "jsstring option"

record GenerateContentResponse =
  promptFeedback :: "PromptFeedback option"
  candidates :: "Candidate list option"
  response_text :: "jsstring option"

text \<open>
  The request the wrapper builds: \<open>{ model, contents: { parts }, config: { responseModalities } }\<close>.
  A part is \<open>{ inlineData: { mimeType, data } }\<close> or \<open>{ text }\<close>.
\<close>

datatype Modality = IMAGE | TEXT

datatype RequestPart = InlineData jsstring jsstring | Text jsstring

record GenerateContentParameters =
  req_model :: jsstring
  req_contents :: "RequestPart list"
  req_responseModalities :: "Modality list"

record GoogleGenAI =
  apiKey :: jsstring


section \<open>Parsing an image reference: \<open>dataUrlToParts\<close>\<close>

text \<open>
  \<open>dataUrl.split(',')\<close>: the segments between the commas (code unit 0x2C), in order;
  a string without a comma is its own single segment.
\<close>

function split :: "jsstring \<Rightarrow> jsstring list" where
  "split s = (case dropWhile (\<lambda>c. c \<noteq> 0x2C) s of
                [] \<Rightarrow> [s]
              | _ # rest \<Rightarrow> takeWhile (\<lambda>c. c \<noteq> 0x2C) s # split rest)"
  by pat_completeness auto
termination
proof (relation "measure length")
  show "wf (measure length)" by simp
next
  fix s :: jsstring and x rest
  assume "dropWhile (\<lambda>c. c \<noteq> 0x2C) s = x # rest"
  moreover have "length (dropWhile (\<lambda>c. c \<noteq> 0x2C) s) \<le> length s"
    by (rule length_dropWhile_le)
  ultimately show "(rest, s) \<in> measure length" by simp
qed

declare split.simps [simp del]

text \<open>
  The regular expression \<open>/:(.*?);/\<close>. Without the \<open>s\<close> flag the dot matches any code
  unit but a line terminator (LF, CR, U+2028, U+2029).
  \<open>lazyGroup\<close> is \<open>(.*?);\<close> anchored at the head of its input: the lazy star stops at
  the first \<open>;\<close> (0x3B) and fails at a line terminator or at the end of the input; it
  returns the capture group.
  \<open>mimeMatch\<close> is the unanchored search: the leftmost \<open>:\<close> (0x3A) from which the rest of the
  pattern matches. Its value is \<open>mimeMatch[1]\<close> of the source, \<open>None\<close> when
  \<open>match\<close> returns \<open>null\<close>.
\<close>

definition lineTerminator :: "16 word \<Rightarrow> bool" where
  "lineTerminator c = (c = 0x0A \<or> c = 0x0D \<or> c = 0x2028 \<or> c = 0x2029)"

fun lazyGroup :: "jsstring \<Rightarrow> jsstring option" where
  "lazyGroup [] = None"
| "lazyGroup (c # cs) =
     (if c = 0x3B then Some []
      else if lineTerminator c then None
      else map_option ((#) c) (lazyGroup cs))"

fun mimeMatch :: "jsstring \<Rightarrow> jsstring option" where
  "mimeMatch [] = None"
| "mimeMatch (c # cs) =
     (if c = 0x3A
      then (case lazyGroup cs of Some g \<Rightarrow> Some g | None \<Rightarrow> mimeMatch cs)
      else mimeMatch cs)"

text \<open>
  \<open>dataUrlToParts\<close> and \<open>dataUrlToPart\<close> of \<^verbatim>\<open>src/services/geminiService.ts\<close>
  (lines 19 to 30). The object \<open>{ mimeType, data }\<close> that \<open>dataUrlToParts\<close> returns is the
  pair \<open>(mimeType, data)\<close>.
\<close>

definition dataUrlToParts :: "jsstring \<Rightarrow> error + (jsstring \<times> jsstring)" where
  "dataUrlToParts dataUrl =
     (let arr = split dataUrl in
      if length arr < 2 then Inl (Error (ascii ''Invalid data URL''))
      else (case mimeMatch (arr ! 0) of
              None \<Rightarrow> Inl (Error (ascii ''Could not parse MIME type from data URL''))
            | Some g \<Rightarrow>
                if g = [] then Inl (Error (ascii ''Could not parse MIME type from data URL''))
                else Inr (g, arr ! 1)))"

definition dataUrlToPart :: "jsstring \<Rightarrow> error + RequestPart" where
  "dataUrlToPart dataUrl =
     (case dataUrlToParts dataUrl of
        Inl e \<Rightarrow> Inl e
      | Inr (mimeType', data') \<Rightarrow> Inr (InlineData mimeType' data'))"

text \<open>The same two functions of \<^verbatim>\<open>src/unnamed/part_000\<close> (lines 47 to 58).\<close>

definition dataUrlToParts_env :: "jsstring \<Rightarrow> error + (jsstring \<times> jsstring)" where
  "dataUrlToParts_env dataUrl =
     (let arr = split dataUrl in
      if length arr < 2 then Inl (Error (ascii ''Invalid data URL''))
      else (case mimeMatch (arr ! 0) of
              None \<Rightarrow> Inl (Error (ascii ''Could not parse MIME type from data URL''))
            | Some g \<Rightarrow>
                if g = [] then Inl (Error (ascii ''Could not parse MIME type from data URL''))
                else Inr (g, arr ! 1)))"

definition dataUrlToPart_env :: "jsstring \<Rightarrow> error + RequestPart" where
  "dataUrlToPart_env dataUrl =
     (case dataUrlToParts_env dataUrl of
        Inl e \<Rightarrow> Inl e
      | Inr (mimeType', data') \<Rightarrow> Inr (InlineData mimeType' data'))"

section \<open>Decoding a response: \<open>handleApiResponse\<close>\<close>

text \<open>
  \<^verbatim>\<open>src/services/geminiService.ts\<close>, lines 32 to 56.
  \<open>imagePart\<close> is \<open>candidate.content?.parts?.find(part => part.inlineData)\<close>; an
  \<open>inlineData\<close> object is truthy whatever it holds.
  \<open>scanCandidates\<close> is the \<open>for\<close> loop over \<open>response.candidates ?? []\<close>, with its
  \<open>return\<close> from inside the loop: \<open>Some\<close> of the returned string, \<open>None\<close> when the
  loop runs to its end.
\<close>

definition imagePart :: "Candidate \<Rightarrow> Part option" where
  "imagePart candidate =
     (case content candidate of
        None \<Rightarrow> None
      | Some c \<Rightarrow>
          (case parts c of
             None \<Rightarrow> None
           | Some ps \<Rightarrow> find (\<lambda>part. inlineData part \<noteq> None) ps))"

fun scanCandidates :: "Candidate list \<Rightarrow> jsstring option" where
  "scanCandidates [] = None"
| "scanCandidates (candidate # rest) =
     (case (case imagePart candidate of None \<Rightarrow> None | Some p \<Rightarrow> inlineData p) of
        Some b \<Rightarrow>
          Some (ascii ''data:'' @ template (mimeType b) @ ascii '';base64,'' @ template (data b))
      | None \<Rightarrow> scanCandidates rest)"

definition handleApiResponse :: "GenerateContentResponse \<Rightarrow> error + jsstring" where
  "handleApiResponse response =
     (case (case promptFeedback response of
              None \<Rightarrow> None
            | Some pf \<Rightarrow> if truthy (blockReason pf) then Some pf else None) of
        Some pf \<Rightarrow>
          Inl (Error
            (ascii ''A solicita'' @ [0xE7, 0xE3] @ ascii ''o foi bloqueada. Motivo: '' @
             template (blockReason pf) @ ascii ''. '' @
             (if truthy (blockReasonMessage pf) then template (blockReasonMessage pf) else [])))
      | None \<Rightarrow>
          (case scanCandidates (case candidates response of None \<Rightarrow> [] | Some cs \<Rightarrow> cs) of
             Some url \<Rightarrow> Inr url
           | None \<Rightarrow>
               (let finishReason' =
                      (case candidates response of
                         None \<Rightarrow> None
                       | Some [] \<Rightarrow> None
                       | Some (c # _) \<Rightarrow> finishReason c)
                in if truthy finishReason' \<and> finishReason' \<noteq> Some (ascii ''STOP'')
                   then Inl (Error
                     (ascii ''A gera'' @ [0xE7, 0xE3] @
                      ascii ''o de imagem parou inesperadamente. Motivo: '' @
                      template finishReason' @
                      ascii ''. Isso geralmente est'' @ [0xE1] @
                      ascii '' relacionado '' @ [0xE0] @ ascii ''s configura'' @
                      [0xE7, 0xF5] @ ascii ''es de seguran'' @ [0xE7] @ ascii ''a.''))
                   else
                     (let textFeedback = map_option trim (response_text response)
                      in Inl (Error
                        (ascii ''O modelo de IA n'' @ [0xE3] @
                         ascii ''o retornou uma imagem. '' @
                         (if truthy textFeedback
                          then ascii ''O modelo respondeu com o texto: '' @ [0x22] @
                               template textFeedback @ [0x22]
                          else ascii ''Isso pode acontecer devido a filtros de seguran'' @
                               [0xE7] @ ascii ''a ou se a solicita'' @ [0xE7, 0xE3] @
                               ascii ''o for muito complexa. Por favor, tente uma imagem diferente.'')))))))"

text \<open>\<^verbatim>\<open>src/unnamed/part_000\<close>, lines 60 to 84.\<close>

definition imagePart_env :: "Candidate \<Rightarrow> Part option" where
  "imagePart_env candidate =
     (case content candidate of
        None \<Rightarrow> None
      | Some c \<Rightarrow>
          (case parts c of
             None \<Rightarrow> None
           | Some ps \<Rightarrow> find (\<lambda>part. inlineData part \<noteq> None) ps))"

fun scanCandidates_env :: "Candidate list \<Rightarrow> jsstring option" where
  "scanCandidates_env [] = None"
| "scanCandidates_env (candidate # rest) =
     (case (case imagePart_env candidate of None \<Rightarrow> None | Some p \<Rightarrow> inlineData p) of
        Some b \<Rightarrow>
          Some (ascii ''data:'' @ template (mimeType b) @ ascii '';base64,'' @ template (data b))
      | None \<Rightarrow> scanCandidates_env rest)"

definition handleApiResponse_env :: "GenerateContentResponse \<Rightarrow> error + jsstring" where
  "handleApiResponse_env response =
     (case (case promptFeedback response of
              None \<Rightarrow> None
            | Some pf \<Rightarrow> if truthy (blockReason pf) then Some pf else None) of
        Some pf \<Rightarrow>
          Inl (Error
            (ascii ''A solicita'' @ [0xE7, 0xE3] @ ascii ''o foi bloqueada. Motivo: '' @
             template (blockReason pf) @ ascii ''. '' @
             (if truthy (blockReasonMessage pf) then template (blockReasonMessage pf) else [])))
      | None \<Rightarrow>
          (case scanCandidates_env (case candidates response of None \<Rightarrow> [] | Some cs \<Rightarrow> cs) of
             Some url \<Rightarrow> Inr url
           | None \<Rightarrow>
               (let finishReason' =
                      (case candidates response of
                         None \<Rightarrow> None
                       | Some [] \<Rightarrow> None
                       | Some (c # _) \<Rightarrow> finishReason c)
                in if truthy finishReason' \<and> finishReason' \<noteq> Some (ascii ''STOP'')
                   then Inl (Error
                     (ascii ''A gera'' @ [0xE7, 0xE3] @
                      ascii ''o de imagem parou inesperadamente. Motivo: '' @
                      template finishReason' @
                      ascii ''. Isso geralmente est'' @ [0xE1] @
                      ascii '' relacionado '' @ [0xE0] @ ascii ''s configura'' @
                      [0xE7, 0xF5] @ ascii ''es de seguran'' @ [0xE7] @ ascii ''a.''))
                   else
                     (let textFeedback = map_option trim (response_text response)
                      in Inl (Error
                        (ascii ''O modelo de IA n'' @ [0xE3] @
                         ascii ''o retornou uma imagem. '' @
                         (if truthy textFeedback
                          then ascii ''O modelo respondeu com o texto: '' @ [0x22] @
                               template textFeedback @ [0x22]
                          else ascii ''Isso pode acontecer devido a filtros de seguran'' @
                               [0xE7] @ ascii ''a ou se a solicita'' @ [0xE7, 0xE3] @
                               ascii ''o for muito complexa. Por favor, tente uma imagem diferente.'')))))))"

section \<open>The three operations\<close>

text \<open>
  An operation is an \<open>async\<close> function: it reads files and calls the service, and it
  ends in a resolved or a rejected promise. The browser and the service are the record
  \<open>world\<close>: what \<open>FileReader.readAsDataURL\<close> delivers for a file (\<open>onload\<close> or
  \<open>onerror\<close>) and what \<open>ai.models.generateContent\<close> answers to a request. The value
  of an operation is its outcome together with the outside calls it made, in order.
\<close>

datatype 'f event = ReadAsDataURL 'f | GenerateContent GoogleGenAI GenerateContentParameters

record 'f world =
  readAsDataURL :: "'f \<Rightarrow> error + jsstring"
  generateContent :: "GoogleGenAI \<Rightarrow> GenerateContentParameters \<Rightarrow> error + GenerateContentResponse"

type_synonym ('f, 'a) async = "(error + 'a) \<times> 'f event list"

text \<open>
  \<open>sync\<close> is a step that calls nothing outside (a \<open>throw\<close> in it rejects the
  promise); \<open>andThen\<close> runs the rest of the function body after a step, unless the step
  failed.
\<close>

definition sync :: "error + 'a \<Rightarrow> ('f, 'a) async" where
  "sync r = (r, [])"

definition andThen :: "('f, 'a) async \<Rightarrow> ('a \<Rightarrow> ('f, 'b) async) \<Rightarrow> ('f, 'b) async" where
  "andThen m k =
     (case m of
        (Inl e, evs) \<Rightarrow> (Inl e, evs)
      | (Inr a, evs) \<Rightarrow> (case k a of (r, evs') \<Rightarrow> (r, evs @ evs')))"

definition callReadAsDataURL :: "'f world \<Rightarrow> 'f \<Rightarrow> ('f, jsstring) async" where
  "callReadAsDataURL w file = (readAsDataURL w file, [ReadAsDataURL file])"

definition callGenerateContent ::
  "'f world \<Rightarrow> GoogleGenAI \<Rightarrow> GenerateContentParameters \<Rightarrow> ('f, GenerateContentResponse) async" where
  "callGenerateContent w ai params = (generateContent w ai params, [GenerateContent ai params])"

definition model :: jsstring where
  "model = ascii ''gemini-2.5-flash-image-preview''"

subsection \<open>The variant with the client built at module load (\<^verbatim>\<open>src/services/geminiService.ts\<close>)\<close>

text \<open>
  The module constant \<open>ai\<close> (line 58) is built from a key literal; it is the parameter
  \<open>ai\<close> of the operation here.
\<close>

definition generatePoseVariation ::
  "GoogleGenAI \<Rightarrow> 'f world \<Rightarrow> jsstring \<Rightarrow> jsstring \<Rightarrow> ('f, jsstring) async" where
  "generatePoseVariation ai w tryOnImageUrl poseInstruction =
     andThen (sync (dataUrlToPart tryOnImageUrl)) (\<lambda>tryOnImagePart.
     andThen (callGenerateContent w ai
        \<lparr>req_model = model,
         req_contents = [tryOnImagePart,
           Text (ascii ''Voc'' @ [0xEA] @ ascii '' '' @ [0xE9] @
                 ascii '' uma IA especialista em fotografia de moda. Pegue esta '' @
                 ascii ''imagem e gere-a novamente de uma perspectiva diferente. A '' @
                 ascii ''pessoa, a roupa e o estilo do fundo devem permanecer id'' @
                 [0xEA] @ ascii ''nticos. A nova perspectiva deve ser: '' @ [0x22] @
                 poseInstruction @
                 [0x22] @ ascii ''. Retorne APENAS a imagem final.'')],
         req_responseModalities = [IMAGE, TEXT]\<rparr>) (\<lambda>response.
     sync (handleApiResponse response)))"

subsection \<open>The variant with the key from the build environment (\<^verbatim>\<open>src/unnamed/part_000\<close>)\<close>

text \<open>
  \<open>import.meta.env\<close> is an object or \<open>undefined\<close>; its property \<open>VITE_API_KEY\<close> is a
  string or \<open>undefined\<close>. Lines 14 to 34.
\<close>

record ImportMetaEnv =
  VITE_API_KEY :: "jsstring option"

definition API_KEY :: "ImportMetaEnv option \<Rightarrow> jsstring option" where
  "API_KEY env = (case env of None \<Rightarrow> None | Some e \<Rightarrow> VITE_API_KEY e)"

definition ai :: "ImportMetaEnv option \<Rightarrow> GoogleGenAI option" where
  "ai env =
     (if \<not> truthy (API_KEY env) then None
      else map_option (\<lambda>key. \<lparr>apiKey = key\<rparr>) (API_KEY env))"

definition isApiKeyConfigured :: "ImportMetaEnv option \<Rightarrow> bool" where
  "isApiKeyConfigured env = truthy (API_KEY env)"

definition getAiInstance :: "ImportMetaEnv option \<Rightarrow> error + GoogleGenAI" where
  "getAiInstance env =
     (case ai env of
        None \<Rightarrow>
          Inl (Error
            (ascii ''A chave de API do Google Gemini n'' @ [0xE3] @
                    ascii ''o est'' @ [0xE1] @
                    ascii '' configurada. Por favor, adicione VITE_API_KEY '' @ [0xE0] @
                    ascii ''s suas vari'' @ [0xE1] @
                    ascii ''veis de ambiente no Netlify e fa'' @ [0xE7] @
                    ascii ''a o redeploy.''))
      | Some client \<Rightarrow> Inr client)"

definition fileToPart_env :: "'f world \<Rightarrow> 'f \<Rightarrow> ('f, RequestPart) async" where
  "fileToPart_env w file =
     andThen (callReadAsDataURL w file) (\<lambda>dataUrl.
     sync (case dataUrlToParts_env dataUrl of
             Inl e \<Rightarrow> Inl e
           | Inr (mimeType', data') \<Rightarrow> Inr (InlineData mimeType' data')))"

definition generateModelImage_env ::
  "ImportMetaEnv option \<Rightarrow> 'f world \<Rightarrow> 'f \<Rightarrow> ('f, jsstring) async" where
  "generateModelImage_env env w userImage =
     andThen (sync (getAiInstance env)) (\<lambda>ai.
     andThen (fileToPart_env w userImage) (\<lambda>userImagePart.
     andThen (callGenerateContent w ai
        \<lparr>req_model = model,
         req_contents = [userImagePart,
           Text (ascii ''Voc'' @ [0xEA] @ ascii '' '' @ [0xE9] @
                 ascii '' uma IA especialista em fotografia de moda. Transforme a '' @
                 ascii ''pessoa nesta imagem em uma foto de modelo de corpo inteiro '' @
                 ascii ''para um site de e-commerce. O fundo deve ser um est'' @
                 [0xFA] @
                 ascii ''dio neutro e limpo (cinza claro, #f0f0f0). A pessoa deve '' @
                 ascii ''ter uma express'' @ [0xE3] @
                 ascii ''o de modelo neutra e profissional. Preserve a identidade da '' @
                 ascii ''pessoa, caracter'' @ [0xED] @ ascii ''sticas '' @ [0xFA] @
                 ascii ''nicas e tipo de corpo, mas coloque-a em uma pose de modelo '' @
                 ascii ''padr'' @ [0xE3] @ ascii ''o, relaxada '' @ [0x438] @
                 ascii '' em p'' @ [0xE9] @
                 ascii ''. A imagem final deve ser fotorrealista. Retorne APENAS a '' @
                 ascii ''imagem final.'')],
         req_responseModalities = [IMAGE, TEXT]\<rparr>) (\<lambda>response.
     sync (handleApiResponse_env response))))"

definition generateVirtualTryOnImage_env ::
  "ImportMetaEnv option \<Rightarrow> 'f world \<Rightarrow> jsstring \<Rightarrow> 'f \<Rightarrow> ('f, jsstring) async" where
  "generateVirtualTryOnImage_env env w modelImageUrl garmentImage =
     andThen (sync (getAiInstance env)) (\<lambda>ai.
     andThen (sync (dataUrlToPart_env modelImageUrl)) (\<lambda>modelImagePart.
     andThen (fileToPart_env w garmentImage) (\<lambda>garmentImagePart.
     andThen (callGenerateContent w ai
        \<lparr>req_model = model,
         req_contents = [modelImagePart, garmentImagePart,
           Text (ascii ''Voc'' @ [0xEA] @ ascii '' '' @ [0xE9] @
                 ascii '' uma IA especialista em provador virtual. Voc'' @ [0xEA] @
                 ascii '' receber'' @ [0xE1] @ ascii '' uma '' @ [0x27] @
                 ascii ''imagem da modelo'' @ [0x27] @ ascii '' e uma '' @ [0x27] @
                 ascii ''imagem da pe'' @ [0xE7] @ ascii ''a de roupa'' @ [0x27] @
                 ascii ''. Sua tarefa '' @ [0xE9] @
                 ascii '' criar uma nova imagem fotorrealista onde a pessoa da '' @
                 [0x27] @ ascii ''imagem da modelo'' @ [0x27] @ ascii '' est'' @
                 [0xE1] @ ascii '' vestindo a roupa da '' @ [0x27] @
                 ascii ''imagem da pe'' @ [0xE7] @ ascii ''a de roupa'' @ [0x27] @
                 ascii ''.'' @ [0x0A, 0x0A] @ ascii ''**Regras Cruciais:**'' @ [0x0A] @
                 ascii ''1.  **Substitui'' @ [0xE7, 0xE3] @
                 ascii ''o Completa da Roupa:** Voc'' @ [0xEA] @
                 ascii '' DEVE remover e substituir COMPLETAMENTE a pe'' @ [0xE7] @
                 ascii ''a de roupa usada pela pessoa na '' @ [0x27] @
                 ascii ''imagem da modelo'' @ [0x27] @ ascii '' pela nova pe'' @
                 [0xE7] @
                 ascii ''a. Nenhuma parte da roupa original (por exemplo, golas, '' @
                 ascii ''mangas, estampas) deve ser vis'' @ [0xED] @
                 ascii ''vel na imagem final.'' @ [0x0A] @
                 ascii ''2.  **Preservar a Modelo:** O rosto, cabelo, formato do '' @
                 ascii ''corpo e pose da pessoa da '' @ [0x27] @
                 ascii ''imagem da modelo'' @ [0x27] @
                 ascii '' DEVEM permanecer inalterados.'' @ [0x0A] @
                 ascii ''3.  **Preservar o Fundo:** Todo o fundo da '' @ [0x27] @
                 ascii ''imagem da modelo'' @ [0x27] @
                 ascii '' DEVE ser preservado perfeitamente.'' @ [0x0A] @
                 ascii ''4.  **Aplicar a Pe'' @ [0xE7] @
                 ascii ''a de Roupa:** Ajuste realisticamente a nova pe'' @ [0xE7] @
                 ascii ''a de roupa na pessoa. Ela deve se adaptar '' @ [0xE0] @
                 ascii '' pose com dobras, sombras e ilumina'' @ [0xE7, 0xE3] @
                 ascii ''o naturais consistentes com a cena original.'' @ [0x0A] @
                 ascii ''5.  **Sa'' @ [0xED] @
                 ascii ''da:** Retorne APENAS a imagem final editada. N'' @ [0xE3] @
                 ascii ''o inclua nenhum texto.'')],
         req_responseModalities = [IMAGE, TEXT]\<rparr>) (\<lambda>response.
     sync (handleApiResponse_env response)))))"

definition generatePoseVariation_env ::
  "ImportMetaEnv option \<Rightarrow> 'f world \<Rightarrow> jsstring \<Rightarrow> jsstring \<Rightarrow> ('f, jsstring) async" where
  "generatePoseVariation_env env w tryOnImageUrl poseInstruction =
     andThen (sync (getAiInstance env)) (\<lambda>ai.
     andThen (sync (dataUrlToPart_env tryOnImageUrl)) (\<lambda>tryOnImagePart.
     andThen (callGenerateContent w ai
        \<lparr>req_model = model,
         req_contents = [tryOnImagePart,
           Text (ascii ''Voc'' @ [0xEA] @ ascii '' '' @ [0xE9] @
                 ascii '' uma IA especialista em fotografia de moda. Pegue esta '' @
                 ascii ''imagem e gere-a novamente de uma perspectiva diferente. A '' @
                 ascii ''pessoa, a roupa e o estilo do fundo devem permanecer id'' @
                 [0xEA] @ ascii ''nticos. A nova perspectiva deve ser: '' @ [0x22] @
                 poseInstruction @
                 [0x22] @ ascii ''. Retorne APENAS a imagem final.'')],
         req_responseModalities = [IMAGE, TEXT]\<rparr>) (\<lambda>response.
     sync (handleApiResponse_env response))))"

section \<open>Vocabulary of the specification\<close>

text \<open>
  The specification speaks of the header of an image reference (the segment before the
  first separator), of its media-type marker, of a response that signals a block reason,
  of the parts of a response in scanning order and of the first candidate's completion
  status. These are those notions, over the types of the code.

  \<open>mediaTypeMarker\<close> is the media type the marker \<open>:<media type>;\<close> of a header
  carries: what the search of \<open>dataUrlToParts\<close> captures, when it captures something.
  \<open>earlierColonsCut pre\<close> says that every \<open>:\<close> of \<open>pre\<close> is followed, inside
  \<open>pre\<close>, by a line terminator that comes before any \<open>;\<close>.
  \<open>FormatError\<close> is the specification's name for the two failures of parsing.
\<close>

definition header :: "jsstring \<Rightarrow> jsstring" where
  "header s = takeWhile (\<lambda>c. c \<noteq> 0x2C) s"

definition mediaTypeMarker :: "jsstring \<Rightarrow> jsstring option" where
  "mediaTypeMarker h =
     (case mimeMatch h of None \<Rightarrow> None | Some g \<Rightarrow> if g = [] then None else Some g)"

definition earlierColonsCut :: "jsstring \<Rightarrow> bool" where
  "earlierColonsCut pre =
     (\<forall>p1 p2. pre = p1 @ 0x3A # p2 \<longrightarrow>
        (\<exists>a c b. p2 = a @ c # b \<and> lineTerminator c \<and> 0x3B \<notin> set a))"

definition FormatError :: "error \<Rightarrow> bool" where
  "FormatError e =
     (e = Error (ascii ''Invalid data URL'') \<or>
      e = Error (ascii ''Could not parse MIME type from data URL''))"

definition blocked :: "GenerateContentResponse \<Rightarrow> bool" where
  "blocked r = (case promptFeedback r of None \<Rightarrow> False | Some pf \<Rightarrow> truthy (blockReason pf))"

definition candidateParts :: "Candidate \<Rightarrow> Part list" where
  "candidateParts c =
     (case content c of
        None \<Rightarrow> []
      | Some ct \<Rightarrow> (case parts ct of None \<Rightarrow> [] | Some ps \<Rightarrow> ps))"

definition allParts :: "GenerateContentResponse \<Rightarrow> Part list" where
  "allParts r = concat (map candidateParts (case candidates r of None \<Rightarrow> [] | Some cs \<Rightarrow> cs))"

definition firstFinishReason :: "GenerateContentResponse \<Rightarrow> jsstring option" where
  "firstFinishReason r =
     (case candidates r of None \<Rightarrow> None | Some [] \<Rightarrow> None | Some (c # _) \<Rightarrow> finishReason c)"

section \<open>Facts about \<open>split\<close>\<close>

lemma split_no_comma:
  assumes "0x2C \<notin> set s"
  shows "split s = [s]"
proof -
  from assms have "\<And>x. x \<in> set s \<Longrightarrow> x \<noteq> 0x2C" by blast
  then have d: "dropWhile (\<lambda>c. c \<noteq> 0x2C) s = []"
    by (simp only: dropWhile_eq_Nil_conv) blast
  show ?thesis
    by (subst split.simps) (simp only: d list.case)
qed

lemma split_at_comma:
  assumes "0x2C \<notin> set h"
  shows "split (h @ 0x2C # t) = h # split t"
proof -
  from assms have n: "\<And>x. x \<in> set h \<Longrightarrow> x \<noteq> 0x2C" by blast
  have d: "dropWhile (\<lambda>c. c \<noteq> 0x2C) (h @ 0x2C # t) = 0x2C # t"
    using n by (subst dropWhile_append2) simp_all
  have t: "takeWhile (\<lambda>c. c \<noteq> 0x2C) (h @ 0x2C # t) = h"
    using n by (subst takeWhile_append2) simp_all
  show ?thesis
    by (subst split.simps) (simp only: d t list.case)
qed

lemma split_not_Nil:
  "split s \<noteq> []"
  by (subst split.simps) (simp split: list.splits)

lemma length_split_less_2:
  "length (split s) < 2 \<longleftrightarrow> 0x2C \<notin> set s"
proof
  assume l: "length (split s) < 2"
  show "0x2C \<notin> set s"
  proof
    assume "0x2C \<in> set s"
    then obtain h t where "s = h @ 0x2C # t" and "0x2C \<notin> set h"
      by (auto dest: split_list_first)
    then have "split s = h # split t" by (simp add: split_at_comma)
    moreover have "split t \<noteq> []" by (rule split_not_Nil)
    ultimately have "2 \<le> length (split s)"
      by (cases "split t") simp_all
    with l show False by simp
  qed
next
  assume "0x2C \<notin> set s"
  then show "length (split s) < 2" by (simp add: split_no_comma)
qed

section \<open>Facts about the regular expression and the parser\<close>

lemma split_nth_0:
  "split s ! 0 = takeWhile (\<lambda>c. c \<noteq> 0x2C) s"
proof (cases "0x2C \<in> set s")
  case True
  then obtain h t where s: "s = h @ 0x2C # t" and h: "0x2C \<notin> set h"
    by (auto dest: split_list_first)
  from h have "\<And>x. x \<in> set h \<Longrightarrow> x \<noteq> 0x2C" by blast
  then have "takeWhile (\<lambda>c. c \<noteq> 0x2C) (h @ 0x2C # t) = h"
    by (subst takeWhile_append2) simp_all
  with s h show ?thesis by (simp add: split_at_comma)
next
  case False
  then have "\<And>x. x \<in> set s \<Longrightarrow> x \<noteq> 0x2C" by blast
  then have tw: "takeWhile (\<lambda>c. c \<noteq> 0x2C) s = s"
    by (simp only: takeWhile_eq_all_conv) blast
  from False have "split s = [s]" by (rule split_no_comma)
  then show ?thesis by (simp only: tw nth_Cons_0)
qed

lemma split_nth_1:
  assumes "0x2C \<notin> set h"
  shows "split (h @ 0x2C # t) ! 1 = takeWhile (\<lambda>c. c \<noteq> 0x2C) t"
  using assms by (simp add: split_at_comma split_nth_0)

lemma lazyGroup_stops:
  "0x3B \<notin> set g \<Longrightarrow> \<forall>c\<in>set g. \<not> lineTerminator c \<Longrightarrow> lazyGroup (g @ 0x3B # suf) = Some g"
  by (induction g) simp_all

lemma lazyGroup_cut:
  "0x3B \<notin> set a \<Longrightarrow> lineTerminator c \<Longrightarrow> lazyGroup (a @ c # r) = None"
  by (induction a) (auto simp: lineTerminator_def)

lemma mimeMatch_skip:
  assumes "earlierColonsCut pre"
  shows "mimeMatch (pre @ rest) = mimeMatch rest"
  using assms
proof (induction pre)
  case Nil
  show ?case by simp
next
  case (Cons c cs)
  have cs: "earlierColonsCut cs"
    unfolding earlierColonsCut_def
  proof (intro allI impI)
    fix p1 p2 assume "cs = p1 @ 0x3A # p2"
    then have "c # cs = (c # p1) @ 0x3A # p2" by simp
    with Cons.prems show "\<exists>a c b. p2 = a @ c # b \<and> lineTerminator c \<and> 0x3B \<notin> set a"
      unfolding earlierColonsCut_def by blast
  qed
  show ?case
  proof (cases "c = 0x3A")
    case True
    then have "c # cs = [] @ 0x3A # cs" by simp
    with Cons.prems obtain a l b where "cs = a @ l # b" "lineTerminator l" "0x3B \<notin> set a"
      unfolding earlierColonsCut_def by blast
    then have "lazyGroup (cs @ rest) = None"
      using lazyGroup_cut [of a l "b @ rest"] by simp
    with True Cons.IH [OF cs] show ?thesis by simp
  next
    case False
    with Cons.IH [OF cs] show ?thesis by simp
  qed
qed

lemma mimeMatch_found:
  assumes "earlierColonsCut pre" and "0x3B \<notin> set g" and "\<forall>c\<in>set g. \<not> lineTerminator c"
  shows "mimeMatch (pre @ 0x3A # g @ 0x3B # suf) = Some g"
  using assms by (simp add: mimeMatch_skip lazyGroup_stops)

lemma dataUrlToParts_eq:
  "dataUrlToParts s =
     (if 0x2C \<notin> set s then Inl (Error (ascii ''Invalid data URL''))
      else (case mediaTypeMarker (header s) of
              None \<Rightarrow> Inl (Error (ascii ''Could not parse MIME type from data URL''))
            | Some m \<Rightarrow> Inr (m, split s ! 1)))"
  by (simp add: dataUrlToParts_def Let_def length_split_less_2 split_nth_0
      mediaTypeMarker_def header_def split: option.splits)

lemma earlierColonsCut_Nil:
  "earlierColonsCut []"
  by (simp add: earlierColonsCut_def)

lemma earlierColonsCut_Cons:
  "earlierColonsCut (c # cs) \<longleftrightarrow>
     (c = 0x3A \<longrightarrow> (\<exists>a l b. cs = a @ l # b \<and> lineTerminator l \<and> 0x3B \<notin> set a)) \<and>
     earlierColonsCut cs"
proof
  assume e: "earlierColonsCut (c # cs)"
  have 1: "\<exists>a l b. cs = a @ l # b \<and> lineTerminator l \<and> 0x3B \<notin> set a" if "c = 0x3A"
  proof -
    from that have "c # cs = [] @ 0x3A # cs" by simp
    with e show ?thesis unfolding earlierColonsCut_def by blast
  qed
  have 2: "earlierColonsCut cs"
    unfolding earlierColonsCut_def
  proof (intro allI impI)
    fix p1 p2 assume "cs = p1 @ 0x3A # p2"
    then have "c # cs = (c # p1) @ 0x3A # p2" by simp
    with e show "\<exists>a c b. p2 = a @ c # b \<and> lineTerminator c \<and> 0x3B \<notin> set a"
      unfolding earlierColonsCut_def by blast
  qed
  from 1 2 show "(c = 0x3A \<longrightarrow> (\<exists>a l b. cs = a @ l # b \<and> lineTerminator l \<and> 0x3B \<notin> set a)) \<and>
     earlierColonsCut cs" by blast
next
  assume a: "(c = 0x3A \<longrightarrow> (\<exists>a l b. cs = a @ l # b \<and> lineTerminator l \<and> 0x3B \<notin> set a)) \<and>
     earlierColonsCut cs"
  show "earlierColonsCut (c # cs)"
    unfolding earlierColonsCut_def
  proof (intro allI impI)
    fix p1 p2 assume d: "c # cs = p1 @ 0x3A # p2"
    show "\<exists>a c b. p2 = a @ c # b \<and> lineTerminator c \<and> 0x3B \<notin> set a"
    proof (cases p1)
      case Nil
      with d have "c = 0x3A" and "cs = p2" by simp_all
      with a show ?thesis by blast
    next
      case (Cons x p1')
      with d have "cs = p1' @ 0x3A # p2" by simp
      with a show ?thesis unfolding earlierColonsCut_def by blast
    qed
  qed
qed

lemma lazyGroup_SomeD:
  "lazyGroup xs = Some g \<Longrightarrow>
   \<exists>suf. xs = g @ 0x3B # suf \<and> 0x3B \<notin> set g \<and> (\<forall>c\<in>set g. \<not> lineTerminator c)"
proof (induction xs arbitrary: g)
  case Nil
  then show ?case by simp
next
  case (Cons c cs)
  show ?case
  proof (cases "c = 0x3B")
    case True
    with Cons.prems have "g = []" by simp
    with True show ?thesis by simp
  next
    case False
    with Cons.prems have nl: "\<not> lineTerminator c"
      by (auto split: if_splits)
    with False Cons.prems obtain g' where g': "lazyGroup cs = Some g'" and g: "g = c # g'"
      by auto
    from Cons.IH [OF g'] obtain suf where
      "cs = g' @ 0x3B # suf" "0x3B \<notin> set g'" "\<forall>c\<in>set g'. \<not> lineTerminator c"
      by blast
    with g False nl show ?thesis by simp
  qed
qed

lemma lazyGroup_NoneD:
  assumes "lazyGroup (p @ 0x3A # g @ 0x3B # suf) = None"
    and "0x3B \<notin> set g" and "\<forall>c\<in>set g. \<not> lineTerminator c"
  shows "\<exists>a l b. p = a @ l # b \<and> lineTerminator l \<and> 0x3B \<notin> set a"
  using assms(1)
proof (induction p)
  case Nil
  have "\<not> lineTerminator 0x3A" by (simp add: lineTerminator_def)
  with Nil assms(2,3) show ?case
    by (simp add: lazyGroup_stops)
next
  case (Cons c p)
  show ?case
  proof (cases "lineTerminator c")
    case True
    then have "c # p = [] @ c # p \<and> lineTerminator c \<and> 0x3B \<notin> set []" by simp
    then show ?thesis by blast
  next
    case False
    with Cons.prems have ne: "c \<noteq> 0x3B" and "lazyGroup (p @ 0x3A # g @ 0x3B # suf) = None"
      by (auto split: if_splits)
    with Cons.IH obtain a l b where "p = a @ l # b" "lineTerminator l" "0x3B \<notin> set a"
      by blast
    with ne have "c # p = (c # a) @ l # b \<and> lineTerminator l \<and> 0x3B \<notin> set (c # a)"
      by simp
    then show ?thesis by blast
  qed
qed

lemma mimeMatch_SomeD:
  "mimeMatch h = Some g \<Longrightarrow>
   \<exists>pre suf. h = pre @ 0x3A # g @ 0x3B # suf \<and> earlierColonsCut pre \<and>
     0x3B \<notin> set g \<and> (\<forall>c\<in>set g. \<not> lineTerminator c)"
proof (induction h)
  case Nil
  then show ?case by simp
next
  case (Cons c cs)
  show ?case
  proof (cases "c = 0x3A \<and> lazyGroup cs \<noteq> None")
    case True
    with Cons.prems have "lazyGroup cs = Some g" by auto
    from lazyGroup_SomeD [OF this] obtain suf where
      "cs = g @ 0x3B # suf" "0x3B \<notin> set g" "\<forall>c\<in>set g. \<not> lineTerminator c"
      by blast
    with True have "c # cs = [] @ 0x3A # g @ 0x3B # suf \<and> earlierColonsCut [] \<and>
        0x3B \<notin> set g \<and> (\<forall>c\<in>set g. \<not> lineTerminator c)"
      by (simp add: earlierColonsCut_Nil)
    then show ?thesis by blast
  next
    case False
    with Cons.prems have "mimeMatch cs = Some g" by (auto split: if_splits)
    from Cons.IH [OF this] obtain pre suf where
      cs: "cs = pre @ 0x3A # g @ 0x3B # suf" and e: "earlierColonsCut pre" and
      g: "0x3B \<notin> set g" "\<forall>c\<in>set g. \<not> lineTerminator c"
      by blast
    have "earlierColonsCut (c # pre)"
    proof (cases "c = 0x3A")
      case True
      with False have "lazyGroup cs = None" by simp
      with cs have "lazyGroup (pre @ 0x3A # g @ 0x3B # suf) = None" by simp
      from lazyGroup_NoneD [OF this g] e True show ?thesis
        by (simp add: earlierColonsCut_Cons)
    next
      case False
      with e show ?thesis by (simp add: earlierColonsCut_Cons)
    qed
    with cs g have "c # cs = (c # pre) @ 0x3A # g @ 0x3B # suf \<and> earlierColonsCut (c # pre) \<and>
        0x3B \<notin> set g \<and> (\<forall>c\<in>set g. \<not> lineTerminator c)"
      by simp
    then show ?thesis by blast
  qed
qed

lemma mediaTypeMarker_Some_iff:
  "mediaTypeMarker h = Some m \<longleftrightarrow>
     m \<noteq> [] \<and>
     (\<exists>pre suf. h = pre @ 0x3A # m @ 0x3B # suf \<and> earlierColonsCut pre \<and>
        0x3B \<notin> set m \<and> (\<forall>c\<in>set m. \<not> lineTerminator c))"
proof
  assume "mediaTypeMarker h = Some m"
  then have "mimeMatch h = Some m" and "m \<noteq> []"
    by (auto simp add: mediaTypeMarker_def split: option.splits if_splits)
  with mimeMatch_SomeD [of h m] show "m \<noteq> [] \<and>
     (\<exists>pre suf. h = pre @ 0x3A # m @ 0x3B # suf \<and> earlierColonsCut pre \<and>
        0x3B \<notin> set m \<and> (\<forall>c\<in>set m. \<not> lineTerminator c))"
    by blast
next
  assume "m \<noteq> [] \<and>
     (\<exists>pre suf. h = pre @ 0x3A # m @ 0x3B # suf \<and> earlierColonsCut pre \<and>
        0x3B \<notin> set m \<and> (\<forall>c\<in>set m. \<not> lineTerminator c))"
  then obtain pre suf where "m \<noteq> []" "h = pre @ 0x3A # m @ 0x3B # suf" "earlierColonsCut pre"
    "0x3B \<notin> set m" "\<forall>c\<in>set m. \<not> lineTerminator c"
    by blast
  then show "mediaTypeMarker h = Some m"
    by (simp add: mediaTypeMarker_def mimeMatch_found)
qed

lemma mediaTypeMarker_None_iff:
  "mediaTypeMarker h = None \<longleftrightarrow>
     \<not> (\<exists>pre m suf. h = pre @ 0x3A # m @ 0x3B # suf \<and> earlierColonsCut pre \<and> m \<noteq> [] \<and>
          0x3B \<notin> set m \<and> (\<forall>c\<in>set m. \<not> lineTerminator c))"
proof -
  have "mediaTypeMarker h \<noteq> None \<longleftrightarrow> (\<exists>m. mediaTypeMarker h = Some m)" by auto
  also have "\<dots> \<longleftrightarrow> (\<exists>pre m suf. h = pre @ 0x3A # m @ 0x3B # suf \<and> earlierColonsCut pre \<and>
      m \<noteq> [] \<and> 0x3B \<notin> set m \<and> (\<forall>c\<in>set m. \<not> lineTerminator c))"
    unfolding mediaTypeMarker_Some_iff by blast
  finally show ?thesis by blast
qed

section \<open>Facts about the decoder and the operations\<close>

lemma find_append_parts:
  "find P (xs @ ys) = (case find P xs of None \<Rightarrow> find P ys | Some x \<Rightarrow> Some x)"
  by (induction xs) simp_all

lemma find_first:
  "\<forall>q\<in>set before. \<not> P q \<Longrightarrow> P p \<Longrightarrow> find P (before @ p # after) = Some p"
  by (induction before) simp_all

lemma find_none:
  "\<forall>q\<in>set xs. \<not> P q \<Longrightarrow> find P xs = None"
  by (induction xs) simp_all

lemma imagePart_find:
  "imagePart c = find (\<lambda>part. inlineData part \<noteq> None) (candidateParts c)"
  by (simp add: imagePart_def candidateParts_def split: option.splits)

lemma find_inlineData:
  "find (\<lambda>part. inlineData part \<noteq> None) ps = Some p \<Longrightarrow> inlineData p \<noteq> None"
  by (induction ps) (auto split: if_splits)

lemma scanCandidates_find:
  "scanCandidates cs =
     (case find (\<lambda>part. inlineData part \<noteq> None) (concat (map candidateParts cs)) of
        None \<Rightarrow> None
      | Some p \<Rightarrow>
          (case inlineData p of
             None \<Rightarrow> None
           | Some b \<Rightarrow>
               Some (ascii ''data:'' @ template (mimeType b) @ ascii '';base64,'' @
                     template (data b))))"
proof (induction cs)
  case Nil
  show ?case by simp
next
  case (Cons c cs)
  show ?case
  proof (cases "find (\<lambda>part. inlineData part \<noteq> None) (candidateParts c)")
    case None
    with Cons.IH show ?thesis
      by (simp add: imagePart_find find_append_parts)
  next
    case (Some p)
    then have "inlineData p \<noteq> None" by (rule find_inlineData)
    then obtain b where "inlineData p = Some b" by blast
    with Some show ?thesis
      by (simp add: imagePart_find find_append_parts)
  qed
qed

lemma handleApiResponse_unblocked:
  assumes "\<not> blocked r"
  shows "handleApiResponse r =
     (case scanCandidates (case candidates r of None \<Rightarrow> [] | Some cs \<Rightarrow> cs) of
        Some url \<Rightarrow> Inr url
      | None \<Rightarrow>
          (if truthy (firstFinishReason r) \<and> firstFinishReason r \<noteq> Some (ascii ''STOP'')
           then Inl (Error
             (ascii ''A gera'' @ [0xE7, 0xE3] @
              ascii ''o de imagem parou inesperadamente. Motivo: '' @
              template (firstFinishReason r) @
              ascii ''. Isso geralmente est'' @ [0xE1] @
              ascii '' relacionado '' @ [0xE0] @ ascii ''s configura'' @
              [0xE7, 0xF5] @ ascii ''es de seguran'' @ [0xE7] @ ascii ''a.''))
           else Inl (Error
             (ascii ''O modelo de IA n'' @ [0xE3] @
              ascii ''o retornou uma imagem. '' @
              (if truthy (map_option trim (response_text r))
               then ascii ''O modelo respondeu com o texto: '' @ [0x22] @
                    template (map_option trim (response_text r)) @ [0x22]
               else ascii ''Isso pode acontecer devido a filtros de seguran'' @
                    [0xE7] @ ascii ''a ou se a solicita'' @ [0xE7, 0xE3] @
                    ascii ''o for muito complexa. Por favor, tente uma imagem diferente.'')))))"
proof -
  from assms have "(case promptFeedback r of
              None \<Rightarrow> None
            | Some pf \<Rightarrow> if truthy (blockReason pf) then Some pf else None) = None"
    by (cases "promptFeedback r") (simp_all add: blocked_def)
  then show ?thesis
    unfolding handleApiResponse_def firstFinishReason_def Let_def by simp
qed

lemma handleApiResponse_image:
  assumes "\<not> blocked r"
    and "allParts r = before @ p # after"
    and "\<forall>q\<in>set before. inlineData q = None"
    and "inlineData p = Some b"
  shows "handleApiResponse r =
     Inr (ascii ''data:'' @ template (mimeType b) @ ascii '';base64,'' @ template (data b))"
proof -
  have "find (\<lambda>part. inlineData part \<noteq> None) (allParts r) = Some p"
    using assms(2-4) by (simp add: find_first)
  then have "scanCandidates (case candidates r of None \<Rightarrow> [] | Some cs \<Rightarrow> cs) =
      Some (ascii ''data:'' @ template (mimeType b) @ ascii '';base64,'' @ template (data b))"
    using assms(4) by (simp add: scanCandidates_find allParts_def)
  with assms(1) show ?thesis
    by (simp add: handleApiResponse_unblocked)
qed

lemma scanCandidates_no_image:
  assumes "\<not> blocked r" and "\<forall>q\<in>set (allParts r). inlineData q = None"
  shows "scanCandidates (case candidates r of None \<Rightarrow> [] | Some cs \<Rightarrow> cs) = None"
proof -
  have "find (\<lambda>part. inlineData part \<noteq> None) (allParts r) = None"
    using assms(2) by (simp add: find_none)
  then show ?thesis
    by (simp add: scanCandidates_find allParts_def)
qed

lemma getAiInstance_unconfigured:
  "\<not> isApiKeyConfigured env \<Longrightarrow>
   getAiInstance env =
     Inl (Error
       (ascii ''A chave de API do Google Gemini n'' @ [0xE3] @ ascii ''o est'' @
        [0xE1] @ ascii '' configurada. Por favor, adicione VITE_API_KEY '' @ [0xE0] @
        ascii ''s suas vari'' @ [0xE1] @ ascii ''veis de ambiente no Netlify e fa'' @
        [0xE7] @ ascii ''a o redeploy.''))"
  by (simp add: getAiInstance_def ai_def isApiKeyConfigured_def)

lemma andThen_sync_Inl:
  "andThen (sync (Inl e)) k = (Inl e, [])"
  by (simp add: andThen_def sync_def)

lemma andThen_sync_Inr:
  "andThen (sync (Inr a)) k = k a"
  by (simp add: andThen_def sync_def split: prod.splits)

lemma scanCandidates_env_eq:
  "scanCandidates_env cs = scanCandidates cs"
proof (induction cs)
  case Nil
  show ?case by simp
next
  case (Cons c cs)
  have "imagePart_env c = imagePart c"
    by (simp add: imagePart_env_def imagePart_def)
  then show ?case
    unfolding scanCandidates_env.simps scanCandidates.simps Cons.IH by simp
qed

section \<open>The claims about decoding a response\<close>

text \<open>
  Claim C1. For every response with no top-level block reason, decoding scans the
  candidates in order and the parts of each candidate in order, and returns the image
  reference built from the first part that carries embedded image data, whatever comes
  after that part: if the parts of the response, in scanning order, are \<open>before\<close>, then
  \<open>p\<close>, then \<open>after\<close>, no part of \<open>before\<close> carries image data and \<open>p\<close> does, the
  result is the reference built from \<open>p\<close>. In particular, when the first part of the first
  candidate is an embedded image with media type \<open>m\<close> and payload \<open>d\<close>, the result is
  exactly \<open>data:m;base64,d\<close>.
\<close>

theorem handleApiResponse_first_image:
  assumes "\<not> blocked r"
  shows "(\<forall>before p after b.
            allParts r = before @ p # after \<and> (\<forall>q\<in>set before. inlineData q = None) \<and>
            inlineData p = Some b \<longrightarrow>
            handleApiResponse r =
              Inr (ascii ''data:'' @ template (mimeType b) @ ascii '';base64,'' @
                   template (data b))) \<and>
         (\<forall>c cs ct p ps m d.
            candidates r = Some (c # cs) \<and> content c = Some ct \<and> parts ct = Some (p # ps) \<and>
            inlineData p = Some \<lparr>mimeType = Some m, data = Some d\<rparr> \<longrightarrow>
            handleApiResponse r = Inr (ascii ''data:'' @ m @ ascii '';base64,'' @ d))"
proof (intro conjI allI impI)
  fix before p after b
  assume "allParts r = before @ p # after \<and> (\<forall>q\<in>set before. inlineData q = None) \<and>
            inlineData p = Some b"
  with assms show "handleApiResponse r =
              Inr (ascii ''data:'' @ template (mimeType b) @ ascii '';base64,'' @
                   template (data b))"
    by (blast intro: handleApiResponse_image)
next
  fix c cs ct p ps m d
  assume a: "candidates r = Some (c # cs) \<and> content c = Some ct \<and> parts ct = Some (p # ps) \<and>
            inlineData p = Some \<lparr>mimeType = Some m, data = Some d\<rparr>"
  then have "allParts r = [] @ p # (ps @ concat (map candidateParts cs))"
    by (simp add: allParts_def candidateParts_def)
  moreover have "\<forall>q\<in>set []. inlineData q = None" by simp
  ultimately have "handleApiResponse r =
     Inr (ascii ''data:'' @ template (mimeType \<lparr>mimeType = Some m, data = Some d\<rparr>) @
          ascii '';base64,'' @ template (data \<lparr>mimeType = Some m, data = Some d\<rparr>))"
    using assms a by (blast intro: handleApiResponse_image)
  then show "handleApiResponse r = Inr (ascii ''data:'' @ m @ ascii '';base64,'' @ d)"
    by (simp add: template_def)
qed

text \<open>
  At a response whose first candidate holds a text part only and whose second candidate
  holds a text part, a PNG image and a JPEG image, the PNG is returned; at a response
  whose first part is the PNG, the PNG is returned.
\<close>

theorem handleApiResponse_first_image_witness:
  "\<not> blocked
     \<lparr>promptFeedback = None,
      candidates = Some
        [\<lparr>content = Some \<lparr>parts = Some [\<lparr>inlineData = None, part_text = Some (ascii ''hi'')\<rparr>]\<rparr>,
          finishReason = Some (ascii ''STOP'')\<rparr>,
         \<lparr>content = Some \<lparr>parts = Some
            [\<lparr>inlineData = None, part_text = Some (ascii ''ho'')\<rparr>,
             \<lparr>inlineData = Some \<lparr>mimeType = Some (ascii ''image/png''), data = Some (ascii ''AAAA'')\<rparr>,
              part_text = None\<rparr>,
             \<lparr>inlineData = Some \<lparr>mimeType = Some (ascii ''image/jpeg''), data = Some (ascii ''BBBB'')\<rparr>,
              part_text = None\<rparr>]\<rparr>,
          finishReason = Some (ascii ''STOP'')\<rparr>],
      response_text = Some (ascii ''hiho'')\<rparr> \<and>
   handleApiResponse
     \<lparr>promptFeedback = None,
      candidates = Some
        [\<lparr>content = Some \<lparr>parts = Some [\<lparr>inlineData = None, part_text = Some (ascii ''hi'')\<rparr>]\<rparr>,
          finishReason = Some (ascii ''STOP'')\<rparr>,
         \<lparr>content = Some \<lparr>parts = Some
            [\<lparr>inlineData = None, part_text = Some (ascii ''ho'')\<rparr>,
             \<lparr>inlineData = Some \<lparr>mimeType = Some (ascii ''image/png''), data = Some (ascii ''AAAA'')\<rparr>,
              part_text = None\<rparr>,
             \<lparr>inlineData = Some \<lparr>mimeType = Some (ascii ''image/jpeg''), data = Some (ascii ''BBBB'')\<rparr>,
              part_text = None\<rparr>]\<rparr>,
          finishReason = Some (ascii ''STOP'')\<rparr>],
      response_text = Some (ascii ''hiho'')\<rparr> = Inr (ascii ''data:image/png;base64,AAAA'') \<and>
   handleApiResponse
     \<lparr>promptFeedback = Some \<lparr>blockReason = None, blockReasonMessage = None\<rparr>,
      candidates = Some
        [\<lparr>content = Some \<lparr>parts = Some
            [\<lparr>inlineData = Some \<lparr>mimeType = Some (ascii ''image/png''), data = Some (ascii ''AAAA'')\<rparr>,
              part_text = None\<rparr>]\<rparr>,
          finishReason = None\<rparr>],
      response_text = None\<rparr> = Inr (ascii ''data:image/png;base64,AAAA'')"
proof -
  let ?text1 = "\<lparr>inlineData = None, part_text = Some (ascii ''hi'')\<rparr>"
  let ?text2 = "\<lparr>inlineData = None, part_text = Some (ascii ''ho'')\<rparr>"
  let ?png = "\<lparr>inlineData = Some \<lparr>mimeType = Some (ascii ''image/png''), data = Some (ascii ''AAAA'')\<rparr>,
              part_text = None\<rparr>"
  let ?jpeg = "\<lparr>inlineData = Some \<lparr>mimeType = Some (ascii ''image/jpeg''), data = Some (ascii ''BBBB'')\<rparr>,
              part_text = None\<rparr>"
  let ?c1 = "\<lparr>content = Some \<lparr>parts = Some [?text1]\<rparr>, finishReason = Some (ascii ''STOP'')\<rparr>"
  let ?c2 = "\<lparr>content = Some \<lparr>parts = Some [?text2, ?png, ?jpeg]\<rparr>,
          finishReason = Some (ascii ''STOP'')\<rparr>"
  let ?r = "\<lparr>promptFeedback = None, candidates = Some [?c1, ?c2],
      response_text = Some (ascii ''hiho'')\<rparr>"
  let ?c3 = "\<lparr>content = Some \<lparr>parts = Some [?png]\<rparr>, finishReason = None\<rparr>"
  let ?r' = "\<lparr>promptFeedback = Some \<lparr>blockReason = None, blockReasonMessage = None\<rparr>,
      candidates = Some [?c3], response_text = None\<rparr>"
  have nb: "\<not> blocked ?r" by (simp add: blocked_def)
  have nb': "\<not> blocked ?r'" by (simp add: blocked_def truthy_def)
  have scan: "allParts ?r = [?text1, ?text2] @ ?png # [?jpeg] \<and>
      (\<forall>q\<in>set [?text1, ?text2]. inlineData q = None) \<and>
      inlineData ?png = Some \<lparr>mimeType = Some (ascii ''image/png''), data = Some (ascii ''AAAA'')\<rparr>"
    by (simp add: allParts_def candidateParts_def)
  have first: "candidates ?r' = Some (?c3 # []) \<and> content ?c3 = Some \<lparr>parts = Some [?png]\<rparr> \<and>
      parts \<lparr>parts = Some [?png]\<rparr> = Some (?png # []) \<and>
      inlineData ?png = Some \<lparr>mimeType = Some (ascii ''image/png''), data = Some (ascii ''AAAA'')\<rparr>"
    by simp
  have 1: "handleApiResponse ?r =
      Inr (ascii ''data:'' @
           template (mimeType \<lparr>mimeType = Some (ascii ''image/png''), data = Some (ascii ''AAAA'')\<rparr>) @
           ascii '';base64,'' @
           template (data \<lparr>mimeType = Some (ascii ''image/png''), data = Some (ascii ''AAAA'')\<rparr>))"
    by (rule handleApiResponse_first_image [OF nb, THEN conjunct1, rule_format, OF scan])
  have 2: "handleApiResponse ?r' =
      Inr (ascii ''data:'' @ ascii ''image/png'' @ ascii '';base64,'' @ ascii ''AAAA'')"
    by (rule handleApiResponse_first_image [OF nb', THEN conjunct2, rule_format, OF first])
  have 3: "ascii ''data:'' @ ascii ''image/png'' @ ascii '';base64,'' @ ascii ''AAAA'' =
      ascii ''data:image/png;base64,AAAA''"
    by (simp add: ascii_def)
  from nb 1 2 show ?thesis
    unfolding 3 [symmetric] by (simp add: template_def)
qed

text \<open>
  Claim C2. For every response that carries a top-level block reason (a non-empty
  \<open>blockReason\<close>), decoding fails with the Blocked error, whose message carries that
  reason and the human-readable message when there is one. The failure does not depend on
  the candidates or on the text of the response: it is the same whatever they are, an
  image part included.
\<close>

theorem handleApiResponse_blocked:
  assumes "promptFeedback r = Some pf" and "blockReason pf = Some reason" and "reason \<noteq> []"
  shows "handleApiResponse r =
           Inl (Error
             (ascii ''A solicita'' @ [0xE7, 0xE3] @ ascii ''o foi bloqueada. Motivo: '' @
              reason @ ascii ''. '' @
              (case blockReasonMessage pf of None \<Rightarrow> [] | Some msg \<Rightarrow> msg))) \<and>
         (\<forall>cs t. handleApiResponse (r\<lparr>candidates := cs, response_text := t\<rparr>) =
                 handleApiResponse r)"
proof -
  have sel: "(case promptFeedback r of
              None \<Rightarrow> None
            | Some pf \<Rightarrow> if truthy (blockReason pf) then Some pf else None) = Some pf"
    using assms by (simp add: truthy_def)
  have msg: "(if truthy (blockReasonMessage pf) then template (blockReasonMessage pf) else []) =
      (case blockReasonMessage pf of None \<Rightarrow> [] | Some msg \<Rightarrow> msg)"
    by (cases "blockReasonMessage pf") (simp_all add: truthy_def template_def)
  have tr: "template (blockReason pf) = reason"
    using assms(2) by (simp add: template_def)
  have val: "handleApiResponse r =
           Inl (Error
             (ascii ''A solicita'' @ [0xE7, 0xE3] @ ascii ''o foi bloqueada. Motivo: '' @
              reason @ ascii ''. '' @
              (case blockReasonMessage pf of None \<Rightarrow> [] | Some msg \<Rightarrow> msg)))"
    unfolding handleApiResponse_def sel by (simp add: msg tr)
  have "\<And>cs t. handleApiResponse (r\<lparr>candidates := cs, response_text := t\<rparr>) =
      handleApiResponse r"
    unfolding handleApiResponse_def using sel by simp
  with val show ?thesis by blast
qed

text \<open>
  A response blocked for \<open>SAFETY\<close> whose first candidate holds a valid PNG part fails
  with the Blocked error; the image is not returned.
\<close>

theorem handleApiResponse_blocked_witness:
  "handleApiResponse
     \<lparr>promptFeedback = Some \<lparr>blockReason = Some (ascii ''SAFETY''),
                             blockReasonMessage = Some (ascii ''Unsafe prompt'')\<rparr>,
      candidates = Some
        [\<lparr>content = Some \<lparr>parts = Some
            [\<lparr>inlineData = Some \<lparr>mimeType = Some (ascii ''image/png''), data = Some (ascii ''AAAA'')\<rparr>,
              part_text = None\<rparr>]\<rparr>,
          finishReason = Some (ascii ''STOP'')\<rparr>],
      response_text = None\<rparr> =
   Inl (Error
     (ascii ''A solicita'' @ [0xE7, 0xE3] @
      ascii ''o foi bloqueada. Motivo: SAFETY. Unsafe prompt''))"
proof -
  let ?pf = "\<lparr>blockReason = Some (ascii ''SAFETY''),
              blockReasonMessage = Some (ascii ''Unsafe prompt'')\<rparr>"
  let ?r = "\<lparr>promptFeedback = Some ?pf,
      candidates = Some
        [\<lparr>content = Some \<lparr>parts = Some
            [\<lparr>inlineData = Some \<lparr>mimeType = Some (ascii ''image/png''), data = Some (ascii ''AAAA'')\<rparr>,
              part_text = None\<rparr>]\<rparr>,
          finishReason = Some (ascii ''STOP'')\<rparr>],
      response_text = None\<rparr>"
  have 1: "promptFeedback ?r = Some ?pf" by simp
  have 2: "blockReason ?pf = Some (ascii ''SAFETY'')" by simp
  have 3: "ascii ''SAFETY'' \<noteq> []" by (simp add: ascii_def)
  from handleApiResponse_blocked [OF 1 2 3, THEN conjunct1] show ?thesis
    by (simp add: ascii_def)
qed

text \<open>
  Claim C3. For every response with no block reason and no part that carries image data:
  if the completion status of the first candidate is present (a non-empty string) and is
  not \<open>STOP\<close>, decoding fails with the Interrupted error carrying that status; if the
  status is \<open>STOP\<close> or absent and the response carries text (text that is not blank),
  decoding fails with the NoImage error embedding that text, trimmed; if the status is
  \<open>STOP\<close> or absent and there is no text, decoding fails with the generic NoImage
  error, which is not an Interrupted error for any status.
\<close>

theorem handleApiResponse_without_image:
  assumes "\<not> blocked r" and "\<forall>q\<in>set (allParts r). inlineData q = None"
  shows "(\<forall>st. firstFinishReason r = Some st \<and> st \<noteq> [] \<and> st \<noteq> ascii ''STOP'' \<longrightarrow>
            handleApiResponse r =
              Inl (Error
                (ascii ''A gera'' @ [0xE7, 0xE3] @
                 ascii ''o de imagem parou inesperadamente. Motivo: '' @ st @
                 ascii ''. Isso geralmente est'' @ [0xE1] @
                 ascii '' relacionado '' @ [0xE0] @ ascii ''s configura'' @
                 [0xE7, 0xF5] @ ascii ''es de seguran'' @ [0xE7] @ ascii ''a.''))) \<and>
         (\<forall>t. (firstFinishReason r = Some (ascii ''STOP'') \<or> \<not> truthy (firstFinishReason r)) \<and>
              response_text r = Some t \<and> trim t \<noteq> [] \<longrightarrow>
            handleApiResponse r =
              Inl (Error
                (ascii ''O modelo de IA n'' @ [0xE3] @ ascii ''o retornou uma imagem. '' @
                 ascii ''O modelo respondeu com o texto: '' @ [0x22] @ trim t @ [0x22]))) \<and>
         ((firstFinishReason r = Some (ascii ''STOP'') \<or> \<not> truthy (firstFinishReason r)) \<and>
          (response_text r = None \<or> (\<exists>t. response_text r = Some t \<and> trim t = [])) \<longrightarrow>
            handleApiResponse r =
              Inl (Error
                (ascii ''O modelo de IA n'' @ [0xE3] @ ascii ''o retornou uma imagem. '' @
                 ascii ''Isso pode acontecer devido a filtros de seguran'' @
                 [0xE7] @ ascii ''a ou se a solicita'' @ [0xE7, 0xE3] @
                 ascii ''o for muito complexa. Por favor, tente uma imagem diferente.'')) \<and>
            (\<forall>st. handleApiResponse r \<noteq>
              Inl (Error
                (ascii ''A gera'' @ [0xE7, 0xE3] @
                 ascii ''o de imagem parou inesperadamente. Motivo: '' @ st @
                 ascii ''. Isso geralmente est'' @ [0xE1] @
                 ascii '' relacionado '' @ [0xE0] @ ascii ''s configura'' @
                 [0xE7, 0xF5] @ ascii ''es de seguran'' @ [0xE7] @ ascii ''a.''))))"
proof -
  note eq = handleApiResponse_unblocked [OF assms(1)] scanCandidates_no_image [OF assms]
  have a: "handleApiResponse r =
              Inl (Error
                (ascii ''A gera'' @ [0xE7, 0xE3] @
                 ascii ''o de imagem parou inesperadamente. Motivo: '' @ st @
                 ascii ''. Isso geralmente est'' @ [0xE1] @
                 ascii '' relacionado '' @ [0xE0] @ ascii ''s configura'' @
                 [0xE7, 0xF5] @ ascii ''es de seguran'' @ [0xE7] @ ascii ''a.''))"
    if "firstFinishReason r = Some st \<and> st \<noteq> [] \<and> st \<noteq> ascii ''STOP''" for st
    using that unfolding eq by (simp add: truthy_def template_def)
  have b: "handleApiResponse r =
              Inl (Error
                (ascii ''O modelo de IA n'' @ [0xE3] @ ascii ''o retornou uma imagem. '' @
                 ascii ''O modelo respondeu com o texto: '' @ [0x22] @ trim t @ [0x22]))"
    if "(firstFinishReason r = Some (ascii ''STOP'') \<or> \<not> truthy (firstFinishReason r)) \<and>
              response_text r = Some t \<and> trim t \<noteq> []" for t
    using that unfolding eq by (auto simp add: truthy_def template_def)
  have c: "handleApiResponse r =
              Inl (Error
                (ascii ''O modelo de IA n'' @ [0xE3] @ ascii ''o retornou uma imagem. '' @
                 ascii ''Isso pode acontecer devido a filtros de seguran'' @
                 [0xE7] @ ascii ''a ou se a solicita'' @ [0xE7, 0xE3] @
                 ascii ''o for muito complexa. Por favor, tente uma imagem diferente.''))"
    if "(firstFinishReason r = Some (ascii ''STOP'') \<or> \<not> truthy (firstFinishReason r)) \<and>
          (response_text r = None \<or> (\<exists>t. response_text r = Some t \<and> trim t = []))"
    using that unfolding eq by (auto simp add: truthy_def template_def)
  have d: "ascii ''O modelo de IA n'' @ rest1 \<noteq> ascii ''A gera'' @ rest2" for rest1 rest2
    by (simp add: ascii_def)
  from a b c d show ?thesis
    by (intro conjI allI impI) (simp_all del: append_assoc)
qed

text \<open>
  The two examples of the specification, and a response with text: status \<open>SAFETY\<close>
  gives Interrupted carrying \<open>SAFETY\<close>; status \<open>STOP\<close> without text gives the generic
  NoImage error; status \<open>STOP\<close> with the text \<open>Sorry\<close> between blanks gives the NoImage
  error embedding \<open>Sorry\<close>.
\<close>

theorem handleApiResponse_without_image_witness:
  "handleApiResponse
     \<lparr>promptFeedback = None,
      candidates = Some [\<lparr>content = None, finishReason = Some (ascii ''SAFETY'')\<rparr>],
      response_text = None\<rparr> =
     Inl (Error
       (ascii ''A gera'' @ [0xE7, 0xE3] @
        ascii ''o de imagem parou inesperadamente. Motivo: '' @ ascii ''SAFETY'' @
        ascii ''. Isso geralmente est'' @ [0xE1] @
        ascii '' relacionado '' @ [0xE0] @ ascii ''s configura'' @
        [0xE7, 0xF5] @ ascii ''es de seguran'' @ [0xE7] @ ascii ''a.'')) \<and>
   handleApiResponse
     \<lparr>promptFeedback = None,
      candidates = Some
        [\<lparr>content = Some \<lparr>parts = Some [\<lparr>inlineData = None, part_text = None\<rparr>]\<rparr>,
          finishReason = Some (ascii ''STOP'')\<rparr>],
      response_text = None\<rparr> =
     Inl (Error
       (ascii ''O modelo de IA n'' @ [0xE3] @ ascii ''o retornou uma imagem. '' @
        ascii ''Isso pode acontecer devido a filtros de seguran'' @
        [0xE7] @ ascii ''a ou se a solicita'' @ [0xE7, 0xE3] @
        ascii ''o for muito complexa. Por favor, tente uma imagem diferente.'')) \<and>
   handleApiResponse
     \<lparr>promptFeedback = None,
      candidates = Some
        [\<lparr>content = Some \<lparr>parts = Some [\<lparr>inlineData = None, part_text = None\<rparr>]\<rparr>,
          finishReason = Some (ascii ''STOP'')\<rparr>],
      response_text = Some (ascii '' Sorry '')\<rparr> =
     Inl (Error
       (ascii ''O modelo de IA n'' @ [0xE3] @ ascii ''o retornou uma imagem. '' @
        ascii ''O modelo respondeu com o texto: '' @ [0x22] @ ascii ''Sorry'' @ [0x22]))"
proof -
  let ?c = "\<lparr>content = Some \<lparr>parts = Some [\<lparr>inlineData = None, part_text = None\<rparr>]\<rparr>,
          finishReason = Some (ascii ''STOP'')\<rparr>"
  let ?r1 = "\<lparr>promptFeedback = None,
      candidates = Some [\<lparr>content = None, finishReason = Some (ascii ''SAFETY'')\<rparr>],
      response_text = None\<rparr>"
  let ?r2 = "\<lparr>promptFeedback = None, candidates = Some [?c], response_text = None\<rparr>"
  let ?r3 = "\<lparr>promptFeedback = None, candidates = Some [?c],
      response_text = Some (ascii '' Sorry '')\<rparr>"
  have nb: "\<not> blocked ?r1" "\<not> blocked ?r2" "\<not> blocked ?r3"
    by (simp_all add: blocked_def)
  have ni: "\<forall>q\<in>set (allParts ?r1). inlineData q = None"
    "\<forall>q\<in>set (allParts ?r2). inlineData q = None"
    "\<forall>q\<in>set (allParts ?r3). inlineData q = None"
    by (simp_all add: allParts_def candidateParts_def)
  have h1: "firstFinishReason ?r1 = Some (ascii ''SAFETY'') \<and> ascii ''SAFETY'' \<noteq> [] \<and>
      ascii ''SAFETY'' \<noteq> ascii ''STOP''"
    by (simp add: firstFinishReason_def ascii_def)
  have h2: "(firstFinishReason ?r2 = Some (ascii ''STOP'') \<or> \<not> truthy (firstFinishReason ?r2)) \<and>
      (response_text ?r2 = None \<or> (\<exists>t. response_text ?r2 = Some t \<and> trim t = []))"
    by (simp add: firstFinishReason_def)
  have tr: "trim (ascii '' Sorry '') = ascii ''Sorry''"
    by (simp add: trim_def ascii_def whiteSpace_def)
  have h3: "(firstFinishReason ?r3 = Some (ascii ''STOP'') \<or> \<not> truthy (firstFinishReason ?r3)) \<and>
      response_text ?r3 = Some (ascii '' Sorry '') \<and> trim (ascii '' Sorry '') \<noteq> []"
    unfolding tr by (simp add: firstFinishReason_def ascii_def)
  note thm1 = handleApiResponse_without_image [OF nb(1) ni(1), THEN conjunct1, rule_format, OF h1]
  note thm2 = handleApiResponse_without_image [OF nb(2) ni(2), THEN conjunct2, THEN conjunct2,
      rule_format, OF h2, THEN conjunct1]
  note thm3 = handleApiResponse_without_image [OF nb(3) ni(3), THEN conjunct2, THEN conjunct1,
      rule_format, OF h3]
  from thm1 thm2 thm3 show ?thesis
    unfolding tr by (intro conjI)
qed

text \<open>
  Claim C4, as stated: decoding never returns an image reference whose media type or
  payload is missing or empty. The code does not check the image part it returns: a part
  whose media type and payload are empty strings decodes to \<open>data:;base64,\<close>, and a part
  whose media type and payload are missing decodes to
  \<open>data:undefined;base64,undefined\<close>.
\<close>

theorem handleApiResponse_unvalidated_counterexample:
  "handleApiResponse
     \<lparr>promptFeedback = None,
      candidates = Some [\<lparr>content = Some \<lparr>parts = Some
        [\<lparr>inlineData = Some \<lparr>mimeType = Some [], data = Some []\<rparr>, part_text = None\<rparr>]\<rparr>,
        finishReason = Some (ascii ''STOP'')\<rparr>],
      response_text = None\<rparr> = Inr (ascii ''data:;base64,'') \<and>
   handleApiResponse
     \<lparr>promptFeedback = None,
      candidates = Some [\<lparr>content = Some \<lparr>parts = Some
        [\<lparr>inlineData = Some \<lparr>mimeType = None, data = None\<rparr>, part_text = None\<rparr>]\<rparr>,
        finishReason = Some (ascii ''STOP'')\<rparr>],
      response_text = None\<rparr> = Inr (ascii ''data:undefined;base64,undefined'')"
  by (simp add: handleApiResponse_def imagePart_def template_def ascii_def)

text \<open>
  Claim C4, amended. Decoding does not validate the image part it returns: for every
  response with no block reason, the first part that carries image data always yields an
  image reference, built from the media type and the payload of that part as they are,
  empty strings included, with the text \<open>undefined\<close> in the place of one that is missing.
  Only when the part carries a media type and a payload are these the two components of
  the reference.
\<close>

theorem handleApiResponse_unvalidated:
  assumes "\<not> blocked r"
    and "allParts r = before @ p # after"
    and "\<forall>q\<in>set before. inlineData q = None"
    and "inlineData p = Some b"
  shows "handleApiResponse r =
     Inr (ascii ''data:'' @ (case mimeType b of None \<Rightarrow> ascii ''undefined'' | Some m \<Rightarrow> m) @
          ascii '';base64,'' @ (case data b of None \<Rightarrow> ascii ''undefined'' | Some d \<Rightarrow> d))"
  using handleApiResponse_image [OF assms] by (simp add: template_def)

theorem handleApiResponse_unvalidated_witness:
  "\<not> blocked
     \<lparr>promptFeedback = None,
      candidates = Some [\<lparr>content = Some \<lparr>parts = Some
        [\<lparr>inlineData = None, part_text = Some (ascii ''hi'')\<rparr>,
         \<lparr>inlineData = Some \<lparr>mimeType = None, data = Some []\<rparr>, part_text = None\<rparr>]\<rparr>,
        finishReason = Some (ascii ''STOP'')\<rparr>],
      response_text = Some (ascii ''hi'')\<rparr> \<and>
   handleApiResponse
     \<lparr>promptFeedback = None,
      candidates = Some [\<lparr>content = Some \<lparr>parts = Some
        [\<lparr>inlineData = None, part_text = Some (ascii ''hi'')\<rparr>,
         \<lparr>inlineData = Some \<lparr>mimeType = None, data = Some []\<rparr>, part_text = None\<rparr>]\<rparr>,
        finishReason = Some (ascii ''STOP'')\<rparr>],
      response_text = Some (ascii ''hi'')\<rparr> = Inr (ascii ''data:undefined;base64,'')"
proof -
  let ?t = "\<lparr>inlineData = None, part_text = Some (ascii ''hi'')\<rparr>"
  let ?b = "\<lparr>mimeType = None, data = Some []\<rparr>"
  let ?p = "\<lparr>inlineData = Some ?b, part_text = None\<rparr>"
  let ?r = "\<lparr>promptFeedback = None,
      candidates = Some [\<lparr>content = Some \<lparr>parts = Some [?t, ?p]\<rparr>,
        finishReason = Some (ascii ''STOP'')\<rparr>],
      response_text = Some (ascii ''hi'')\<rparr>"
  have 1: "\<not> blocked ?r" by (simp add: blocked_def)
  have 2: "allParts ?r = [?t] @ ?p # []" by (simp add: allParts_def candidateParts_def)
  have 3: "\<forall>q\<in>set [?t]. inlineData q = None" by simp
  have 4: "inlineData ?p = Some ?b" by simp
  from handleApiResponse_unvalidated [OF 1 2 3 4] 1 show ?thesis
    by (simp add: ascii_def)
qed

section \<open>The claims about parsing an image reference\<close>

text \<open>
  Claim C5. For every input string, parsing an image reference fails with a FormatError
  exactly when the string has no \<open>,\<close> separator between header and payload, or the
  media-type marker cannot be located in the header segment: without a separator the failure
  is "Invalid data URL", with a separator and no marker it is "Could not parse MIME type
  from data URL", and no other failure exists. The marker is located when the header is
  some text, a \<open>:\<close>, a non-empty media type with no \<open>;\<close> and no line terminator in it, a
  \<open>;\<close>, and some text, where every \<open>:\<close> before the marker is cut off by a line
  terminator before any \<open>;\<close>. The well-formed example
  \<open>data:image/png;base64,AAAA\<close> parses to the media type \<open>image/png\<close> and the payload
  \<open>AAAA\<close>.
\<close>

theorem dataUrlToParts_fails_iff:
  "((\<exists>e. dataUrlToParts s = Inl e) \<longleftrightarrow>
      0x2C \<notin> set s \<or> mediaTypeMarker (header s) = None) \<and>
   (mediaTypeMarker (header s) = None \<longleftrightarrow>
      \<not> (\<exists>pre m suf. header s = pre @ 0x3A # m @ 0x3B # suf \<and> earlierColonsCut pre \<and>
            m \<noteq> [] \<and> 0x3B \<notin> set m \<and> (\<forall>c\<in>set m. \<not> lineTerminator c))) \<and>
   (\<forall>e. dataUrlToParts s = Inl e \<longrightarrow> FormatError e) \<and>
   (0x2C \<notin> set s \<longrightarrow> dataUrlToParts s = Inl (Error (ascii ''Invalid data URL''))) \<and>
   (0x2C \<in> set s \<and> mediaTypeMarker (header s) = None \<longrightarrow>
      dataUrlToParts s = Inl (Error (ascii ''Could not parse MIME type from data URL''))) \<and>
   dataUrlToParts (ascii ''data:image/png;base64,AAAA'') =
     Inr (ascii ''image/png'', ascii ''AAAA'')"
proof -
  have iff: "(\<exists>e. dataUrlToParts s = Inl e) \<longleftrightarrow>
      0x2C \<notin> set s \<or> mediaTypeMarker (header s) = None"
    by (auto simp add: dataUrlToParts_eq split: option.splits)
  have kind: "\<forall>e. dataUrlToParts s = Inl e \<longrightarrow> FormatError e"
    by (auto simp add: dataUrlToParts_eq FormatError_def split: option.splits if_splits)
  have nosep: "0x2C \<notin> set s \<longrightarrow> dataUrlToParts s = Inl (Error (ascii ''Invalid data URL''))"
    by (simp add: dataUrlToParts_eq)
  have nomark: "0x2C \<in> set s \<and> mediaTypeMarker (header s) = None \<longrightarrow>
      dataUrlToParts s = Inl (Error (ascii ''Could not parse MIME type from data URL''))"
    by (simp add: dataUrlToParts_eq)
  have ex: "dataUrlToParts (ascii ''data:image/png;base64,AAAA'') =
     Inr (ascii ''image/png'', ascii ''AAAA'')"
    by (simp add: dataUrlToParts_def ascii_def split.simps lineTerminator_def)
  note marker = mediaTypeMarker_None_iff [of "header s"]
  from iff marker kind nosep nomark ex show ?thesis by (intro conjI)
qed

theorem dataUrlToParts_fails_iff_witness:
  "0x2C \<notin> set (ascii ''data:image/png;base64'') \<and>
   dataUrlToParts (ascii ''data:image/png;base64'') = Inl (Error (ascii ''Invalid data URL'')) \<and>
   0x2C \<in> set (ascii ''image/png,AAAA'') \<and>
   mediaTypeMarker (header (ascii ''image/png,AAAA'')) = None \<and>
   dataUrlToParts (ascii ''image/png,AAAA'') =
     Inl (Error (ascii ''Could not parse MIME type from data URL''))"
proof -
  have a: "0x2C \<notin> set (ascii ''data:image/png;base64'')"
    by (simp add: ascii_def)
  have b: "0x2C \<in> set (ascii ''image/png,AAAA'') \<and>
      mediaTypeMarker (header (ascii ''image/png,AAAA'')) = None"
    by (simp add: ascii_def header_def mediaTypeMarker_def)
  from a b
    dataUrlToParts_fails_iff [of "ascii ''data:image/png;base64''"]
    dataUrlToParts_fails_iff [of "ascii ''image/png,AAAA''"]
  show ?thesis by blast
qed

text \<open>
  Claim C9, as stated: every string with a comma whose segment before the first comma
  contains a \<open>:\<close> followed, after at least one character, by a \<open>;\<close> parses, with the
  text between that \<open>:\<close> and \<open>;\<close> as the media type. It fails on the code in two ways.
  In \<open>x:;:a;j,P\<close> the second \<open>:\<close> is followed by \<open>a\<close> and a \<open>;\<close>, but the search
  matches at the first \<open>:\<close>, captures the empty string, and parsing fails. In
  \<open>a:b\<close>, a line feed, \<open>c;x,P\<close> the \<open>:\<close> is followed by three characters and a
  \<open>;\<close>, but the dot of the pattern does not cross the line feed, and parsing fails.
\<close>

theorem dataUrlToParts_lax_counterexample:
  "0x2C \<in> set (ascii ''x:;:a;j,P'') \<and>
   header (ascii ''x:;:a;j,P'') = ascii ''x:;'' @ 0x3A # ascii ''a'' @ 0x3B # ascii ''j'' \<and>
   ascii ''a'' \<noteq> [] \<and>
   dataUrlToParts (ascii ''x:;:a;j,P'') =
     Inl (Error (ascii ''Could not parse MIME type from data URL'')) \<and>
   0x2C \<in> set (ascii ''a:b'' @ [0x0A] @ ascii ''c;x,P'') \<and>
   header (ascii ''a:b'' @ [0x0A] @ ascii ''c;x,P'') =
     ascii ''a'' @ 0x3A # (ascii ''b'' @ [0x0A] @ ascii ''c'') @ 0x3B # ascii ''x'' \<and>
   ascii ''b'' @ [0x0A] @ ascii ''c'' \<noteq> [] \<and>
   dataUrlToParts (ascii ''a:b'' @ [0x0A] @ ascii ''c;x,P'') =
     Inl (Error (ascii ''Could not parse MIME type from data URL''))"
  by (simp add: dataUrlToParts_def header_def ascii_def split.simps lineTerminator_def)

text \<open>
  Claim C9, amended. Parsing is laxer than the grammar \<open>data:<mediaType>;base64,<payload>\<close>:
  for every string that contains a comma and whose segment before the first comma contains
  a \<open>:\<close> followed, after at least one character and with no \<open>;\<close> and no line terminator
  in between, by a \<open>;\<close>, while every earlier \<open>:\<close> of the segment is cut off by a
  line terminator before any \<open>;\<close> (in particular when it is the first \<open>:\<close>), parsing
  succeeds with the text between that \<open>:\<close> and \<open>;\<close> as the media type. Neither the
  \<open>data:\<close> prefix nor the \<open>;base64\<close> marker is required: \<open>x:a;junk,PAYLOAD\<close> parses
  to the media type \<open>a\<close> and the payload \<open>PAYLOAD\<close>.
\<close>

theorem dataUrlToParts_lax:
  assumes "0x2C \<in> set s"
    and "header s = pre @ 0x3A # g @ 0x3B # suf"
    and "earlierColonsCut pre"
    and "g \<noteq> []" and "0x3B \<notin> set g" and "\<forall>c\<in>set g. \<not> lineTerminator c"
  shows "(\<exists>payload. dataUrlToParts s = Inr (g, payload)) \<and>
         dataUrlToParts (ascii ''x:a;junk,PAYLOAD'') = Inr (ascii ''a'', ascii ''PAYLOAD'')"
proof -
  from assms(3,5,6) have "mimeMatch (pre @ 0x3A # g @ 0x3B # suf) = Some g"
    by (rule mimeMatch_found)
  with assms(2,4) have "mediaTypeMarker (header s) = Some g"
    by (simp add: mediaTypeMarker_def)
  with assms(1) have "dataUrlToParts s = Inr (g, split s ! 1)"
    by (simp add: dataUrlToParts_eq)
  moreover have "dataUrlToParts (ascii ''x:a;junk,PAYLOAD'') = Inr (ascii ''a'', ascii ''PAYLOAD'')"
    by (simp add: dataUrlToParts_def ascii_def split.simps lineTerminator_def)
  ultimately show ?thesis by blast
qed

theorem dataUrlToParts_lax_witness:
  "0x2C \<in> set (ascii ''a:'' @ [0x0A] @ ascii '':b;x,P'') \<and>
   header (ascii ''a:'' @ [0x0A] @ ascii '':b;x,P'') =
     (ascii ''a:'' @ [0x0A]) @ 0x3A # ascii ''b'' @ 0x3B # ascii ''x'' \<and>
   earlierColonsCut (ascii ''a:'' @ [0x0A]) \<and>
   ascii ''b'' \<noteq> [] \<and> 0x3B \<notin> set (ascii ''b'') \<and>
   list_all (\<lambda>c. \<not> lineTerminator c) (ascii ''b'') \<and>
   (\<exists>payload. dataUrlToParts (ascii ''a:'' @ [0x0A] @ ascii '':b;x,P'') =
      Inr (ascii ''b'', payload))"
proof -
  have 1: "0x2C \<in> set (ascii ''a:'' @ [0x0A] @ ascii '':b;x,P'')"
    by (simp add: ascii_def)
  have 2: "header (ascii ''a:'' @ [0x0A] @ ascii '':b;x,P'') =
     (ascii ''a:'' @ [0x0A]) @ 0x3A # ascii ''b'' @ 0x3B # ascii ''x''"
    by (simp add: header_def ascii_def)
  have 3: "earlierColonsCut (ascii ''a:'' @ [0x0A])"
    by (auto simp add: earlierColonsCut_def ascii_def Cons_eq_append_conv lineTerminator_def)
  have 4: "ascii ''b'' \<noteq> []" and 5: "0x3B \<notin> set (ascii ''b'')"
    by (simp_all add: ascii_def)
  have 6: "\<forall>c\<in>set (ascii ''b''). \<not> lineTerminator c"
    by (simp add: ascii_def lineTerminator_def)
  from 6 have 7: "list_all (\<lambda>c. \<not> lineTerminator c) (ascii ''b'')"
    by (simp add: list_all_iff)
  from dataUrlToParts_lax [OF 1 2 3 4 5 6] 1 2 3 4 5 7 show ?thesis by blast
qed

text \<open>
  Claim C10. For every image reference with more than one comma, parsing returns as
  payload only the text strictly between the first and the second comma; everything from
  the second comma on is silently discarded. With \<open>h\<close> the segment before the first comma
  and \<open>a\<close> the segment between the first two commas, the result is the media type of
  \<open>h\<close> with the payload \<open>a\<close> whatever follows the second comma (and the failure of a
  header without a media type, likewise whatever follows). So
  \<open>data:image/png;base64,AA,BB\<close> parses with the payload \<open>AA\<close>.
\<close>

theorem dataUrlToParts_second_comma:
  assumes "0x2C \<notin> set h" and "0x2C \<notin> set a"
  shows "dataUrlToParts (h @ 0x2C # a @ 0x2C # rest) =
           (case mediaTypeMarker h of
              None \<Rightarrow> Inl (Error (ascii ''Could not parse MIME type from data URL''))
            | Some m \<Rightarrow> Inr (m, a))"
proof -
  from assms(1) have "\<And>x. x \<in> set h \<Longrightarrow> x \<noteq> 0x2C" by blast
  then have "takeWhile (\<lambda>c. c \<noteq> 0x2C) (h @ 0x2C # a @ 0x2C # rest) = h"
    by (subst takeWhile_append2) simp_all
  then have hd: "header (h @ 0x2C # a @ 0x2C # rest) = h"
    by (simp add: header_def)
  from assms(2) have "\<And>x. x \<in> set a \<Longrightarrow> x \<noteq> 0x2C" by blast
  then have "takeWhile (\<lambda>c. c \<noteq> 0x2C) (a @ 0x2C # rest) = a"
    by (subst takeWhile_append2) simp_all
  with split_nth_1 [OF assms(1), of "a @ 0x2C # rest"]
  have pl: "split (h @ 0x2C # a @ 0x2C # rest) ! Suc 0 = a"
    by simp
  show ?thesis
    by (simp add: dataUrlToParts_eq hd pl cong: option.case_cong)
qed

theorem dataUrlToParts_second_comma_witness:
  "0x2C \<notin> set (ascii ''data:image/png;base64'') \<and> 0x2C \<notin> set (ascii ''AA'') \<and>
   dataUrlToParts (ascii ''data:image/png;base64,AA,BB'') = Inr (ascii ''image/png'', ascii ''AA'')"
proof -
  have 1: "0x2C \<notin> set (ascii ''data:image/png;base64'')" and 2: "0x2C \<notin> set (ascii ''AA'')"
    by (simp_all add: ascii_def)
  have 3: "mediaTypeMarker (ascii ''data:image/png;base64'') = Some (ascii ''image/png'')"
    by (simp add: mediaTypeMarker_def ascii_def lineTerminator_def)
  have 4: "ascii ''data:image/png;base64,AA,BB'' =
      ascii ''data:image/png;base64'' @ 0x2C # ascii ''AA'' @ 0x2C # ascii ''BB''"
    by (simp add: ascii_def)
  from dataUrlToParts_second_comma [OF 1 2, of "ascii ''BB''"] 1 2 show ?thesis
    unfolding 3 4 by simp
qed

section \<open>The claims about the operations\<close>

lemma snd_callGenerateContent_sync:
  "snd (andThen (callGenerateContent w client params) (\<lambda>response. sync (f response))) =
     [GenerateContent client params]"
  by (simp add: andThen_def callGenerateContent_def sync_def split: sum.splits)

text \<open>
  Claim C6. When no API key is configured (\<open>import.meta.env\<close> is missing, or its
  \<open>VITE_API_KEY\<close> is missing or empty), each of the three operations (model image,
  virtual try-on, pose variation) fails at once with the configuration error, and has made
  no call outside the module: no file was read and no request was sent to the service.
\<close>

theorem unconfigured_fails_before_any_call:
  assumes "\<not> isApiKeyConfigured env"
  shows "generateModelImage_env env w userImage =
           (Inl (Error
             (ascii ''A chave de API do Google Gemini n'' @ [0xE3] @ ascii ''o est'' @
              [0xE1] @ ascii '' configurada. Por favor, adicione VITE_API_KEY '' @ [0xE0] @
              ascii ''s suas vari'' @ [0xE1] @ ascii ''veis de ambiente no Netlify e fa'' @
              [0xE7] @ ascii ''a o redeploy.'')), []) \<and>
         generateVirtualTryOnImage_env env w modelImageUrl garmentImage =
           (Inl (Error
             (ascii ''A chave de API do Google Gemini n'' @ [0xE3] @ ascii ''o est'' @
              [0xE1] @ ascii '' configurada. Por favor, adicione VITE_API_KEY '' @ [0xE0] @
              ascii ''s suas vari'' @ [0xE1] @ ascii ''veis de ambiente no Netlify e fa'' @
              [0xE7] @ ascii ''a o redeploy.'')), []) \<and>
         generatePoseVariation_env env w tryOnImageUrl poseInstruction =
           (Inl (Error
             (ascii ''A chave de API do Google Gemini n'' @ [0xE3] @ ascii ''o est'' @
              [0xE1] @ ascii '' configurada. Por favor, adicione VITE_API_KEY '' @ [0xE0] @
              ascii ''s suas vari'' @ [0xE1] @ ascii ''veis de ambiente no Netlify e fa'' @
              [0xE7] @ ascii ''a o redeploy.'')), [])"
  unfolding generateModelImage_env_def generateVirtualTryOnImage_env_def
    generatePoseVariation_env_def getAiInstance_unconfigured [OF assms] andThen_sync_Inl
  by simp

text \<open>
  With an empty \<open>VITE_API_KEY\<close>, in a world where every file reads as a valid PNG
  reference and the service answers every request with an image, each operation still
  fails with the configuration error and an empty list of outside calls.
\<close>

theorem unconfigured_fails_before_any_call_witness:
  "\<not> isApiKeyConfigured (Some \<lparr>VITE_API_KEY = Some []\<rparr>) \<and>
   snd (generateModelImage_env (Some \<lparr>VITE_API_KEY = Some []\<rparr>)
     \<lparr>readAsDataURL = (\<lambda>f :: nat. Inr (ascii ''data:image/png;base64,AAAA'')),
      generateContent = (\<lambda>c p. Inr \<lparr>promptFeedback = None,
         candidates = Some [\<lparr>content = Some \<lparr>parts = Some
           [\<lparr>inlineData = Some \<lparr>mimeType = Some (ascii ''image/png''), data = Some (ascii ''AAAA'')\<rparr>,
             part_text = None\<rparr>]\<rparr>, finishReason = None\<rparr>],
         response_text = None\<rparr>)\<rparr> 0) = [] \<and>
   snd (generateVirtualTryOnImage_env (Some \<lparr>VITE_API_KEY = Some []\<rparr>)
     \<lparr>readAsDataURL = (\<lambda>f :: nat. Inr (ascii ''data:image/png;base64,AAAA'')),
      generateContent = (\<lambda>c p. Inr \<lparr>promptFeedback = None,
         candidates = Some [\<lparr>content = Some \<lparr>parts = Some
           [\<lparr>inlineData = Some \<lparr>mimeType = Some (ascii ''image/png''), data = Some (ascii ''AAAA'')\<rparr>,
             part_text = None\<rparr>]\<rparr>, finishReason = None\<rparr>],
         response_text = None\<rparr>)\<rparr> (ascii ''data:image/png;base64,AAAA'') 0) = [] \<and>
   snd (generatePoseVariation_env (Some \<lparr>VITE_API_KEY = Some []\<rparr>)
     \<lparr>readAsDataURL = (\<lambda>f :: nat. Inr (ascii ''data:image/png;base64,AAAA'')),
      generateContent = (\<lambda>c p. Inr \<lparr>promptFeedback = None,
         candidates = Some [\<lparr>content = Some \<lparr>parts = Some
           [\<lparr>inlineData = Some \<lparr>mimeType = Some (ascii ''image/png''), data = Some (ascii ''AAAA'')\<rparr>,
             part_text = None\<rparr>]\<rparr>, finishReason = None\<rparr>],
         response_text = None\<rparr>)\<rparr> (ascii ''data:image/png;base64,AAAA'') (ascii ''top-down view'')) = []"
proof -
  have 1: "\<not> isApiKeyConfigured (Some \<lparr>VITE_API_KEY = Some []\<rparr>)"
    by (simp add: isApiKeyConfigured_def API_KEY_def truthy_def)
  show ?thesis
    using 1 by (simp add: unconfigured_fails_before_any_call [OF 1])
qed

text \<open>
  Claim C7. For every pose instruction \<open>s\<close> supplied by the caller, the prompt that the
  pose-variation operation sends out contains \<open>s\<close> verbatim, between two fixed texts,
  with no escaping and no change. In both variants of the wrapper the operation sends
  exactly one request when its image reference parses (and, in the variant that reads the
  key from the environment, a key is configured), and none otherwise; the text part of
  that request is the fixed opening, then \<open>s\<close>, then the fixed ending.
\<close>

theorem generatePoseVariation_prompt:
  "snd (generatePoseVariation client w tryOnImageUrl poseInstruction) =
     (case dataUrlToParts tryOnImageUrl of
        Inl e \<Rightarrow> []
      | Inr (m, d) \<Rightarrow>
          [GenerateContent client
             \<lparr>req_model = model,
              req_contents = [InlineData m d,
                Text (ascii ''Voc'' @ [0xEA] @ ascii '' '' @ [0xE9] @
                      ascii '' uma IA especialista em fotografia de moda. Pegue esta '' @
                      ascii ''imagem e gere-a novamente de uma perspectiva diferente. A '' @
                      ascii ''pessoa, a roupa e o estilo do fundo devem permanecer id'' @
                      [0xEA] @ ascii ''nticos. A nova perspectiva deve ser: '' @ [0x22] @
                      poseInstruction @
                      [0x22] @ ascii ''. Retorne APENAS a imagem final.'')],
              req_responseModalities = [IMAGE, TEXT]\<rparr>]) \<and>
   snd (generatePoseVariation_env env w tryOnImageUrl poseInstruction) =
     (case ai env of
        None \<Rightarrow> []
      | Some client' \<Rightarrow>
          (case dataUrlToParts_env tryOnImageUrl of
             Inl e \<Rightarrow> []
           | Inr (m, d) \<Rightarrow>
               [GenerateContent client'
                  \<lparr>req_model = model,
                   req_contents = [InlineData m d,
                     Text (ascii ''Voc'' @ [0xEA] @ ascii '' '' @ [0xE9] @
                           ascii '' uma IA especialista em fotografia de moda. Pegue esta '' @
                           ascii ''imagem e gere-a novamente de uma perspectiva diferente. A '' @
                           ascii ''pessoa, a roupa e o estilo do fundo devem permanecer id'' @
                           [0xEA] @ ascii ''nticos. A nova perspectiva deve ser: '' @ [0x22] @
                           poseInstruction @
                           [0x22] @ ascii ''. Retorne APENAS a imagem final.'')],
                   req_responseModalities = [IMAGE, TEXT]\<rparr>]))"
proof
  show "snd (generatePoseVariation client w tryOnImageUrl poseInstruction) =
     (case dataUrlToParts tryOnImageUrl of
        Inl e \<Rightarrow> []
      | Inr (m, d) \<Rightarrow>
          [GenerateContent client
             \<lparr>req_model = model,
              req_contents = [InlineData m d,
                Text (ascii ''Voc'' @ [0xEA] @ ascii '' '' @ [0xE9] @
                      ascii '' uma IA especialista em fotografia de moda. Pegue esta '' @
                      ascii ''imagem e gere-a novamente de uma perspectiva diferente. A '' @
                      ascii ''pessoa, a roupa e o estilo do fundo devem permanecer id'' @
                      [0xEA] @ ascii ''nticos. A nova perspectiva deve ser: '' @ [0x22] @
                      poseInstruction @
                      [0x22] @ ascii ''. Retorne APENAS a imagem final.'')],
              req_responseModalities = [IMAGE, TEXT]\<rparr>])"
  proof (cases "dataUrlToParts tryOnImageUrl")
    case (Inl e)
    then show ?thesis
      by (simp add: generatePoseVariation_def dataUrlToPart_def andThen_sync_Inl)
  next
    case (Inr md)
    then show ?thesis
      by (cases md)
        (simp add: generatePoseVariation_def dataUrlToPart_def andThen_sync_Inr
          snd_callGenerateContent_sync)
  qed
next
  show "snd (generatePoseVariation_env env w tryOnImageUrl poseInstruction) =
     (case ai env of
        None \<Rightarrow> []
      | Some client' \<Rightarrow>
          (case dataUrlToParts_env tryOnImageUrl of
             Inl e \<Rightarrow> []
           | Inr (m, d) \<Rightarrow>
               [GenerateContent client'
                  \<lparr>req_model = model,
                   req_contents = [InlineData m d,
                     Text (ascii ''Voc'' @ [0xEA] @ ascii '' '' @ [0xE9] @
                           ascii '' uma IA especialista em fotografia de moda. Pegue esta '' @
                           ascii ''imagem e gere-a novamente de uma perspectiva diferente. A '' @
                           ascii ''pessoa, a roupa e o estilo do fundo devem permanecer id'' @
                           [0xEA] @ ascii ''nticos. A nova perspectiva deve ser: '' @ [0x22] @
                           poseInstruction @
                           [0x22] @ ascii ''. Retorne APENAS a imagem final.'')],
                   req_responseModalities = [IMAGE, TEXT]\<rparr>]))"
  proof (cases "ai env")
    case None
    then show ?thesis
      by (simp add: generatePoseVariation_env_def getAiInstance_def andThen_sync_Inl)
  next
    case (Some client')
    show ?thesis
    proof (cases "dataUrlToParts_env tryOnImageUrl")
      case (Inl e)
      with Some show ?thesis
        by (simp add: generatePoseVariation_env_def getAiInstance_def dataUrlToPart_env_def
            andThen_sync_Inl andThen_sync_Inr)
    next
      case (Inr md)
      with Some show ?thesis
        by (cases md)
          (simp add: generatePoseVariation_env_def getAiInstance_def dataUrlToPart_env_def
            andThen_sync_Inr snd_callGenerateContent_sync)
    qed
  qed
qed

text \<open>
  The example of the specification: with the instruction \<open>top-down view\<close> and the
  reference \<open>data:image/png;base64,AAAA\<close>, the one request sent carries the prompt with
  \<open>top-down view\<close> between the quotation marks of the template.
\<close>

theorem generatePoseVariation_prompt_witness:
  "snd (generatePoseVariation \<lparr>apiKey = ascii ''key''\<rparr>
     \<lparr>readAsDataURL = (\<lambda>f :: nat. Inl (External 0)),
      generateContent = (\<lambda>c p. Inl (External 1))\<rparr>
     (ascii ''data:image/png;base64,AAAA'') (ascii ''top-down view'')) =
   [GenerateContent \<lparr>apiKey = ascii ''key''\<rparr>
      \<lparr>req_model = model,
       req_contents = [InlineData (ascii ''image/png'') (ascii ''AAAA''),
         Text (ascii ''Voc'' @ [0xEA] @ ascii '' '' @ [0xE9] @
               ascii '' uma IA especialista em fotografia de moda. Pegue esta '' @
               ascii ''imagem e gere-a novamente de uma perspectiva diferente. A '' @
               ascii ''pessoa, a roupa e o estilo do fundo devem permanecer id'' @
               [0xEA] @ ascii ''nticos. A nova perspectiva deve ser: '' @ [0x22] @
               ascii ''top-down view'' @
               [0x22] @ ascii ''. Retorne APENAS a imagem final.'')],
       req_responseModalities = [IMAGE, TEXT]\<rparr>]"
proof -
  have p: "dataUrlToParts (ascii ''data:image/png;base64,AAAA'') =
      Inr (ascii ''image/png'', ascii ''AAAA'')"
    by (simp add: dataUrlToParts_def ascii_def split.simps lineTerminator_def)
  from generatePoseVariation_prompt
    [of "\<lparr>apiKey = ascii ''key''\<rparr>"
        "\<lparr>readAsDataURL = (\<lambda>f :: nat. Inl (External 0)),
          generateContent = (\<lambda>c p. Inl (External 1))\<rparr>"
        "ascii ''data:image/png;base64,AAAA''" "ascii ''top-down view''", THEN conjunct1]
  show ?thesis
    unfolding p by simp
qed

text \<open>
  Claim C8. The two near-duplicate implementations of the wrapper compute the same
  functions on their shared logic: for every response, \<open>handleApiResponse\<close> of the
  variant with the key in the source and of the variant with the key from the environment
  return the same image reference or fail with the same error and message; for every
  string, their \<open>dataUrlToParts\<close> return the same media type and payload or the same
  failure.
\<close>

theorem variants_agree:
  "handleApiResponse_env response = handleApiResponse response \<and>
   dataUrlToParts_env dataUrl = dataUrlToParts dataUrl"
  unfolding handleApiResponse_env_def handleApiResponse_def scanCandidates_env_eq
    dataUrlToParts_env_def dataUrlToParts_def
  by simp

end
